theory Spec2Isabelle
  imports Main "HOL-Library.Sublist"
begin

section \<open>Python values, HTTP messages and exceptions\<close>

text \<open>
  The embedding follows \<^verbatim>\<open>services/github/github_manager.py\<close>. A Python \<^verbatim>\<open>str\<close> is
  represented by the bytes of its UTF-8 encoding (an Isabelle \<^typ>\<open>string\<close>), \<^verbatim>\<open>bytes\<close>
  by the same type; equality of two \<^verbatim>\<open>str\<close> is equality of their encodings, and a
  \<^verbatim>\<open>str\<close> is ASCII exactly when every byte is below 128.
\<close>

datatype pyval =
    VNone
  | VBool bool
  | VInt int
  | VStr string
  | VList "pyval list"
  | VDict "(string \<times> pyval) list"
  | VObj "(string \<times> pyval) list"

text \<open>
  \<open>VDict\<close> is a \<^verbatim>\<open>dict\<close> with \<^verbatim>\<open>str\<close> keys in insertion order (what
  \<^verbatim>\<open>response.json()\<close> yields for a JSON object); \<open>VObj\<close> is an object whose attributes
  are the listed ones.
\<close>

record response =
  status_code :: int
  resp_text :: string
  json :: "pyval option"

text \<open>
  \<open>json r\<close> is the value \<^verbatim>\<open>r.json()\<close> parses from the body, \<open>None\<close> when the body is
  not JSON and \<^verbatim>\<open>r.json()\<close> raises.
\<close>

datatype exn =
    HTTPError "response option"
  | RequestException string
  | JSONDecodeError
  | KeyError string
  | IndexError
  | TypeError string
  | AttributeError string
  | ValueError string
  | RuntimeError string
  | RecursionError
  | UnicodeDecodeError
  | binascii_Error string
  | OSError string

datatype http_method = GET | PUT | PATCH

record request =
  req_method :: http_method
  url :: string
  headers :: "(string \<times> string) list"
  req_json :: "pyval option"
  timeout :: int

subsection \<open>Operations of the Python data model\<close>

fun truthy :: "pyval \<Rightarrow> bool" where
  "truthy VNone = False"
| "truthy (VBool b) = b"
| "truthy (VInt i) = (i \<noteq> 0)"
| "truthy (VStr s) = (s \<noteq> [])"
| "truthy (VList xs) = (xs \<noteq> [])"
| "truthy (VDict d) = (d \<noteq> [])"
| "truthy (VObj a) = True"

text \<open>\<^verbatim>\<open>v[key]\<close> for a \<^verbatim>\<open>str\<close> key.\<close>

fun getitem_str :: "pyval \<Rightarrow> string \<Rightarrow> exn + pyval" where
  "getitem_str (VDict d) k = (case map_of d k of None \<Rightarrow> Inl (KeyError k) | Some v \<Rightarrow> Inr v)"
| "getitem_str (VList xs) k = Inl (TypeError ''list indices must be integers or slices, not str'')"
| "getitem_str (VStr s) k = Inl (TypeError ''string indices must be integers'')"
| "getitem_str v k = Inl (TypeError ''object is not subscriptable'')"

text \<open>\<^verbatim>\<open>v.get(key)\<close>: only a \<^verbatim>\<open>dict\<close> has the method.\<close>

fun dict_get :: "pyval \<Rightarrow> string \<Rightarrow> exn + pyval" where
  "dict_get (VDict d) k = (case map_of d k of None \<Rightarrow> Inr VNone | Some v \<Rightarrow> Inr v)"
| "dict_get v k = Inl (AttributeError ''get'')"

text \<open>
  \<^verbatim>\<open>v[0]\<close>. The first element of a \<^verbatim>\<open>str\<close> is its first character, here the first
  byte of the encoding (the callers only test the result with \<^verbatim>\<open>isinstance\<close> and
  \<^verbatim>\<open>hasattr\<close>, which do not look inside a \<^verbatim>\<open>str\<close>).
\<close>

fun getitem0 :: "pyval \<Rightarrow> exn + pyval" where
  "getitem0 (VList xs) = (case xs of [] \<Rightarrow> Inl IndexError | x # _ \<Rightarrow> Inr x)"
| "getitem0 (VStr s) = (case s of [] \<Rightarrow> Inl IndexError | c # _ \<Rightarrow> Inr (VStr [c]))"
| "getitem0 (VDict d) = Inl (KeyError ''0'')"
| "getitem0 v = Inl (TypeError ''object is not subscriptable'')"

fun isinstance_list :: "pyval \<Rightarrow> bool" where
  "isinstance_list (VList xs) = True"
| "isinstance_list v = False"

fun hasattr :: "pyval \<Rightarrow> string \<Rightarrow> bool" where
  "hasattr (VObj a) k = (map_of a k \<noteq> None)"
| "hasattr v k = False"

fun getattr :: "pyval \<Rightarrow> string \<Rightarrow> exn + pyval" where
  "getattr (VObj a) k = (case map_of a k of None \<Rightarrow> Inl (AttributeError k) | Some v \<Rightarrow> Inr v)"
| "getattr v k = Inl (AttributeError k)"

text \<open>\<^verbatim>\<open>s.find(sub)\<close>: the least index where \<open>sub\<close> starts, or \<open>-1\<close>.\<close>

fun find_from :: "string \<Rightarrow> string \<Rightarrow> int \<Rightarrow> int" where
  "find_from sub [] i = (if sub = [] then i else - 1)"
| "find_from sub (c # cs) i = (if prefix sub (c # cs) then i else find_from sub cs (i + 1))"

fun str_find :: "pyval \<Rightarrow> string \<Rightarrow> exn + int" where
  "str_find (VStr s) sub = Inr (find_from sub s 0)"
| "str_find v sub = Inl (AttributeError ''find'')"

definition is_ascii :: "string \<Rightarrow> bool" where
  "is_ascii s = list_all (\<lambda>c. (of_char c :: nat) < 128) s"

section \<open>Codecs of the standard library\<close>

subsection \<open>UTF-8 decoding\<close>

datatype errors_policy = Strict | Replace

text \<open>
  \<open>utf8_scan bs\<close> looks at the sequence that starts a non-empty \<open>bs\<close>, as CPython's
  decoder does: \<open>(True, n)\<close> for a well-formed sequence of \<open>n\<close> bytes, \<open>(False, n)\<close>
  for an error that covers \<open>n\<close> bytes (an invalid start byte, a start byte with the
  continuation bytes that were accepted before the offending one, or a sequence cut off
  by the end of the input).
\<close>

definition is_cont :: "char \<Rightarrow> bool" where
  "is_cont c = (128 \<le> (of_char c :: nat) \<and> (of_char c :: nat) < 192)"

fun utf8_scan :: "string \<Rightarrow> bool \<times> nat" where
  "utf8_scan [] = (False, 1)"
| "utf8_scan (c # cs) =
    (let ch = (of_char c :: nat) in
     if ch < 128 then (True, 1)
     else if ch < 194 then (False, 1)
     else if ch < 224 then
       (case cs of
          [] \<Rightarrow> (False, 1)
        | c2 # _ \<Rightarrow> if is_cont c2 then (True, 2) else (False, 1))
     else if ch < 240 then
       (case cs of
          [] \<Rightarrow> (False, 1)
        | c2 # cs2 \<Rightarrow>
            if is_cont c2 then
              (if (if (of_char c2 :: nat) < 160 then ch = 224 else ch = 237) then (False, 1)
               else (case cs2 of
                       [] \<Rightarrow> (False, 2)
                     | c3 # _ \<Rightarrow> if is_cont c3 then (True, 3) else (False, 2)))
            else (False, 1))
     else if ch < 245 then
       (case cs of
          [] \<Rightarrow> (False, 1)
        | c2 # cs2 \<Rightarrow>
            if is_cont c2 then
              (if (if (of_char c2 :: nat) < 144 then ch = 240 else ch = 244) then (False, 1)
               else (case cs2 of
                       [] \<Rightarrow> (False, 2)
                     | c3 # cs3 \<Rightarrow>
                         if is_cont c3 then
                           (case cs3 of
                              [] \<Rightarrow> (False, 3)
                            | c4 # _ \<Rightarrow> if is_cont c4 then (True, 4) else (False, 3))
                         else (False, 2)))
            else (False, 1))
     else (False, 1))"

text \<open>The encoding of U+FFFD, the replacement character.\<close>

definition replacement_character :: string where
  "replacement_character = [char_of (239 :: nat), char_of (191 :: nat), char_of (189 :: nat)]"

text \<open>
  \<^verbatim>\<open>bs.decode("utf-8", errors)\<close>. The fuel is the number of bytes left; every step
  consumes at least one.
\<close>

fun decode_loop :: "nat \<Rightarrow> errors_policy \<Rightarrow> string \<Rightarrow> exn + string" where
  "decode_loop 0 p bs = Inr []"
| "decode_loop (Suc k) p bs =
    (if bs = [] then Inr []
     else (case utf8_scan bs of
             (True, n) \<Rightarrow>
               (case decode_loop k p (drop n bs) of
                  Inl e \<Rightarrow> Inl e
                | Inr s \<Rightarrow> Inr (take n bs @ s))
           | (False, n) \<Rightarrow>
               (case p of
                  Strict \<Rightarrow> Inl UnicodeDecodeError
                | Replace \<Rightarrow>
                    (case decode_loop k p (drop n bs) of
                       Inl e \<Rightarrow> Inl e
                     | Inr s \<Rightarrow> Inr (replacement_character @ s)))))"

definition bytes_decode :: "string \<Rightarrow> errors_policy \<Rightarrow> exn + string" where
  "bytes_decode bs p = decode_loop (length bs) p bs"

text \<open>
  \<^verbatim>\<open>s.encode("utf-8")\<close> is the identity on the representation (a \<^verbatim>\<open>str\<close> with a lone
  surrogate, which would raise, has no representation here).
\<close>

definition str_encode :: "string \<Rightarrow> string" where
  "str_encode s = s"

subsection \<open>Base64\<close>

definition b64_alphabet :: string where
  "b64_alphabet = ''ABCDEFGHIJKLMNOPQRSTUVWXYZabcdefghijklmnopqrstuvwxyz0123456789+/''"

definition table_b2a :: "nat \<Rightarrow> char" where
  "table_b2a n = b64_alphabet ! n"

definition table_a2b :: "char \<Rightarrow> nat option" where
  "table_a2b c = map_of (zip b64_alphabet [0..<64]) c"

text \<open>\<^verbatim>\<open>base64.b64encode\<close> (\<^verbatim>\<open>binascii.b2a_base64\<close> without the newline).\<close>

fun b64encode :: "string \<Rightarrow> string" where
  "b64encode [] = []"
| "b64encode [a] =
    (let x = (of_char a :: nat) in
     [table_b2a (x div 4), table_b2a ((x mod 4) * 16), CHR ''='', CHR ''=''])"
| "b64encode [a, b] =
    (let x = (of_char a :: nat); y = (of_char b :: nat) in
     [table_b2a (x div 4), table_b2a ((x mod 4) * 16 + y div 16),
      table_b2a ((y mod 16) * 4), CHR ''=''])"
| "b64encode (a # b # c # rest) =
    (let x = (of_char a :: nat); y = (of_char b :: nat); z = (of_char c :: nat) in
     [table_b2a (x div 4), table_b2a ((x mod 4) * 16 + y div 16),
      table_b2a ((y mod 16) * 4 + z div 64), table_b2a (z mod 64)] @ b64encode rest)"

text \<open>
  \<^verbatim>\<open>binascii.a2b_base64\<close> in its default, non-strict mode: characters outside the
  alphabet are skipped, a pad sequence that completes a quad ends the input, and data
  that stops inside a quad is an error. The state is the position in the quad, the bits
  left over from the previous character, and the number of pad characters just seen.
\<close>

fun a2b_base64 :: "string \<Rightarrow> nat \<Rightarrow> nat \<Rightarrow> nat \<Rightarrow> string \<Rightarrow> exn + string" where
  "a2b_base64 [] quad_pos leftchar pads out =
    (if quad_pos = 0 then Inr out
     else if quad_pos = 1 then Inl (binascii_Error ''Invalid base64-encoded string'')
     else Inl (binascii_Error ''Incorrect padding''))"
| "a2b_base64 (c # cs) quad_pos leftchar pads out =
    (if c = CHR ''='' then
       (if 2 \<le> quad_pos \<and> 4 \<le> quad_pos + (pads + 1) then Inr out
        else a2b_base64 cs quad_pos leftchar (if 2 \<le> quad_pos then pads + 1 else pads) out)
     else
       (case table_a2b c of
          None \<Rightarrow> a2b_base64 cs quad_pos leftchar pads out
        | Some this_ch \<Rightarrow>
            if quad_pos = 0 then a2b_base64 cs 1 this_ch 0 out
            else if quad_pos = 1 then
              a2b_base64 cs 2 (this_ch mod 16) 0
                (out @ [char_of (leftchar * 4 + this_ch div 16)])
            else if quad_pos = 2 then
              a2b_base64 cs 3 (this_ch mod 4) 0
                (out @ [char_of (leftchar * 16 + this_ch div 4)])
            else
              a2b_base64 cs 0 0 0 (out @ [char_of (leftchar * 64 + this_ch)])))"

text \<open>
  \<^verbatim>\<open>base64.b64decode(s)\<close> for the values the callers can pass: a \<^verbatim>\<open>str\<close> must be
  ASCII, anything that is not a \<^verbatim>\<open>str\<close> (JSON has no bytes) is a \<^verbatim>\<open>TypeError\<close>.
\<close>

fun b64decode :: "pyval \<Rightarrow> exn + string" where
  "b64decode (VStr s) =
    (if is_ascii s then a2b_base64 s 0 0 0 []
     else Inl (ValueError ''string argument should contain only ASCII characters''))"
| "b64decode v = Inl (TypeError ''argument should be a bytes-like object or ASCII string'')"

section \<open>The world outside the process\<close>

text \<open>
  The names imported from \<^verbatim>\<open>config\<close> and \<^verbatim>\<open>utils.text_copy\<close> are parameters of the
  model. \<^verbatim>\<open>UTF8\<close> is taken to name the UTF-8 codec.
\<close>

record config =
  GITHUB_API_URL :: string
  GITHUB_API_VERSION :: string
  TIMEOUT_IN_SECONDS :: int
  PRODUCT_NAME :: string
  PRODUCT_URL :: string
  UPDATE_COMMENT_FOR_RAISED_ERRORS_BODY :: string
  UPDATE_COMMENT_FOR_RAISED_ERRORS_NO_CHANGES_MADE :: string

text \<open>
  The argument \<^verbatim>\<open>error: Any\<close> of the failure reporter is given by what the object
  answers to the expressions the reporter evaluates on it: each is a value or the
  exception the evaluation raises.
\<close>

record error_obj =
  isinstance_HTTPError :: bool
  response_status_code :: "exn + pyval"
  response_text :: "exn + pyval"
  subscript_message :: "exn + pyval"
  attr_message :: "exn + pyval"
  attr_errors :: "exn + pyval"

datatype sys_call =
    MakeDirs string
  | RunCommand string string
  | WriteFile string string

datatype logarg = AStr string | AVal pyval | AExn exn | AObj error_obj

datatype level = ERROR | INFO

datatype event =
    Sent request
  | Sys sys_call
  | Logged level string "logarg list"

text \<open>
  The environment answers every request and every local command from a state of its
  own; an answer is a value or the exception the call raises. \<^verbatim>\<open>run_command\<close> of
  \<^verbatim>\<open>utils.file_manager\<close> is one of the local commands. Output on \<^verbatim>\<open>stdout\<close> is not
  modelled.
\<close>

record 's env =
  http :: "request \<Rightarrow> 's \<Rightarrow> (exn + response) \<times> 's"
  path_exists :: "string \<Rightarrow> 's \<Rightarrow> bool"
  sys :: "sys_call \<Rightarrow> 's \<Rightarrow> exn option \<times> 's"

record 's world =
  outside :: 's
  trace :: "event list"

definition send :: "'s env \<Rightarrow> request \<Rightarrow> 's world \<Rightarrow> (exn + response) \<times> 's world" where
  "send env req w =
    (case http env req (outside w) of
       (r, s) \<Rightarrow> (r, \<lparr>outside = s, trace = trace w @ [Sent req]\<rparr>))"

definition syscall :: "'s env \<Rightarrow> sys_call \<Rightarrow> 's world \<Rightarrow> exn option \<times> 's world" where
  "syscall env c w =
    (case sys env c (outside w) of
       (r, s) \<Rightarrow> (r, \<lparr>outside = s, trace = trace w @ [Sys c]\<rparr>))"

definition logging :: "level \<Rightarrow> string \<Rightarrow> logarg list \<Rightarrow> 's world \<Rightarrow> 's world" where
  "logging lvl msg args w = \<lparr>outside = outside w, trace = trace w @ [Logged lvl msg args]\<rparr>"

definition raise_for_status :: "response \<Rightarrow> exn + unit" where
  "raise_for_status r =
    (if 400 \<le> status_code r \<and> status_code r < 600 then Inl (HTTPError (Some r)) else Inr ())"

definition response_json :: "response \<Rightarrow> exn + pyval" where
  "response_json r = (case json r of None \<Rightarrow> Inl JSONDecodeError | Some v \<Rightarrow> Inr v)"

text \<open>
  The decorator \<^verbatim>\<open>handle_exceptions\<close> of \<^verbatim>\<open>utils.handle_exceptions\<close>, as its two
  arguments name it: when the decorated function raises, the exception is raised again
  if \<^verbatim>\<open>raise_on_error\<close> is set, and \<^verbatim>\<open>default_return_value\<close> is returned otherwise.
\<close>

definition handle_exceptions :: "'a \<Rightarrow> bool \<Rightarrow> exn + 'a \<Rightarrow> exn + 'a" where
  "handle_exceptions default_return_value raise_on_error r =
    (case r of
       Inl e \<Rightarrow> if raise_on_error then Inl e else Inr default_return_value
     | Inr v \<Rightarrow> Inr v)"

definition decorated ::
  "'a \<Rightarrow> bool \<Rightarrow> ('s world \<Rightarrow> (exn + 'a) \<times> 's world) \<Rightarrow> 's world \<Rightarrow> (exn + 'a) \<times> 's world" where
  "decorated default_return_value raise_on_error f w =
    (case f w of (r, w') \<Rightarrow> (handle_exceptions default_return_value raise_on_error r, w'))"

section \<open>The functions of \<^verbatim>\<open>github_manager.py\<close>\<close>

definition create_headers :: "config \<Rightarrow> string \<Rightarrow> (string \<times> string) list" where
  "create_headers cfg token =
    [(''Accept'', ''application/vnd.github.v3+json''),
     (''Authorization'', ''Bearer '' @ token),
     (''X-GitHub-Api-Version'', GITHUB_API_VERSION cfg)]"

text \<open>
  The arguments every call of \<^verbatim>\<open>requests\<close> in this module passes: the method, the URL,
  the headers of \<^verbatim>\<open>create_headers\<close>, the JSON body if any, and the timeout.
\<close>

definition request_of ::
  "config \<Rightarrow> http_method \<Rightarrow> string \<Rightarrow> string \<Rightarrow> pyval option \<Rightarrow> request" where
  "request_of cfg m u token j =
    \<lparr>req_method = m, url = u, headers = create_headers cfg token, req_json = j,
     timeout = TIMEOUT_IN_SECONDS cfg\<rparr>"

subsection \<open>Committing a diff\<close>

text \<open>
  Lines 124 to 136 of \<^verbatim>\<open>commit_changes_to_remote_branch\<close>: the baseline text and the
  version tag read from the answer to the \<^verbatim>\<open>GET\<close>.
\<close>

definition read_file_info :: "response \<Rightarrow> exn + (string \<times> pyval)" where
  "read_file_info response =
    (if status_code response = 200 then
       (case response_json response of
          Inl e \<Rightarrow> Inl e
        | Inr file_info \<Rightarrow>
            (case dict_get file_info ''content'' of
               Inl e \<Rightarrow> Inl e
             | Inr content \<Rightarrow>
                 (case b64decode content of
                    Inl e \<Rightarrow> Inl e
                  | Inr raw \<Rightarrow>
                      (case bytes_decode raw Replace of
                         Inl e \<Rightarrow> Inl e
                       | Inr original_text \<Rightarrow>
                           (case getitem_str file_info ''sha'' of
                              Inl e \<Rightarrow> Inl e
                            | Inr sha \<Rightarrow> Inr (original_text, sha))))))
     else if status_code response \<noteq> 404 then
       (case raise_for_status response of
          Inl e \<Rightarrow> Inl e
        | Inr _ \<Rightarrow> Inr ([], VStr []))
     else Inr ([], VStr []))"

definition contents_url :: "config \<Rightarrow> string \<Rightarrow> string \<Rightarrow> string \<Rightarrow> string" where
  "contents_url cfg owner repo file_path =
    GITHUB_API_URL cfg @ ''/repos/'' @ owner @ ''/'' @ repo @ ''/contents/'' @ file_path"

definition put_data :: "string \<Rightarrow> string \<Rightarrow> string \<Rightarrow> pyval \<Rightarrow> pyval" where
  "put_data commit_message content branch sha =
    VDict ([(''message'', VStr commit_message), (''content'', VStr content),
            (''branch'', VStr branch)]
           @ (if sha \<noteq> VStr [] then [(''sha'', sha)] else []))"



text \<open>
  The body of \<^verbatim>\<open>commit_changes_to_remote_branch\<close>. \<^verbatim>\<open>apply_patch\<close> of
  \<^verbatim>\<open>utils.file_manager\<close> is a parameter: a function from the baseline and the diff to
  the patched text, or to the exception it raises.
\<close>

definition commit_changes_inner ::
  "config \<Rightarrow> 's env \<Rightarrow> (string \<Rightarrow> string \<Rightarrow> exn + string) \<Rightarrow>
   string \<Rightarrow> string \<Rightarrow> string \<Rightarrow> string \<Rightarrow> string \<Rightarrow> string \<Rightarrow> string \<Rightarrow>
   's world \<Rightarrow> (exn + unit) \<times> 's world" where
  "commit_changes_inner cfg env apply_patch branch commit_message diff_text file_path owner repo
      token w =
    (let url = contents_url cfg owner repo file_path in
     case send env (request_of cfg GET url token None) w of
       (Inl e, w1) \<Rightarrow> (Inl e, w1)
     | (Inr response, w1) \<Rightarrow>
         (case read_file_info response of
            Inl e \<Rightarrow> (Inl e, w1)
          | Inr (original_text, sha) \<Rightarrow>
              (case apply_patch original_text diff_text of
                 Inl e \<Rightarrow> (Inl e, w1)
               | Inr modified_text \<Rightarrow>
                   if modified_text = [] then (Inr (), w1)
                   else
                     (case bytes_decode (b64encode (str_encode modified_text)) Strict of
                        Inl e \<Rightarrow> (Inl e, w1)
                      | Inr content \<Rightarrow>
                          (case send env
                                  (request_of cfg PUT url token
                                     (Some (put_data commit_message content branch sha))) w1 of
                             (Inl e, w2) \<Rightarrow> (Inl e, w2)
                           | (Inr put_response, w2) \<Rightarrow>
                               (case raise_for_status put_response of
                                  Inl e \<Rightarrow> (Inl e, w2)
                                | Inr _ \<Rightarrow> (Inr (), w2)))))))"

definition commit_changes_to_remote_branch ::
  "config \<Rightarrow> 's env \<Rightarrow> (string \<Rightarrow> string \<Rightarrow> exn + string) \<Rightarrow>
   string \<Rightarrow> string \<Rightarrow> string \<Rightarrow> string \<Rightarrow> string \<Rightarrow> string \<Rightarrow> string \<Rightarrow>
   's world \<Rightarrow> (exn + unit) \<times> 's world" where
  "commit_changes_to_remote_branch cfg env apply_patch branch commit_message diff_text file_path
      owner repo token =
    decorated () False
      (commit_changes_inner cfg env apply_patch branch commit_message diff_text file_path owner
         repo token)"

text \<open>
  The loop of \<^verbatim>\<open>commit_multiple_changes_to_remote_branch\<close>. \<^verbatim>\<open>extract_file_name\<close> of
  \<^verbatim>\<open>utils.file_manager\<close> is a parameter.
\<close>

fun commit_multiple_loop ::
  "config \<Rightarrow> 's env \<Rightarrow> (string \<Rightarrow> string \<Rightarrow> exn + string) \<Rightarrow> (string \<Rightarrow> exn + string) \<Rightarrow>
   string list \<Rightarrow> string \<Rightarrow> string \<Rightarrow> string \<Rightarrow> string \<Rightarrow>
   's world \<Rightarrow> (exn + unit) \<times> 's world" where
  "commit_multiple_loop cfg env apply_patch extract_file_name [] new_branch owner repo token w =
    (Inr (), w)"
| "commit_multiple_loop cfg env apply_patch extract_file_name (diff # diffs) new_branch owner
      repo token w =
    (case extract_file_name diff of
       Inl e \<Rightarrow> (Inl e, w)
     | Inr file_path \<Rightarrow>
         (case commit_changes_to_remote_branch cfg env apply_patch new_branch
                 (''Update '' @ file_path) diff file_path owner repo token w of
            (Inl e, w1) \<Rightarrow> (Inl e, w1)
          | (Inr _, w1) \<Rightarrow>
              commit_multiple_loop cfg env apply_patch extract_file_name diffs new_branch owner
                repo token w1))"

definition commit_multiple_changes_to_remote_branch ::
  "config \<Rightarrow> 's env \<Rightarrow> (string \<Rightarrow> string \<Rightarrow> exn + string) \<Rightarrow> (string \<Rightarrow> exn + string) \<Rightarrow>
   string list \<Rightarrow> string \<Rightarrow> string \<Rightarrow> string \<Rightarrow> string \<Rightarrow>
   's world \<Rightarrow> (exn + unit) \<times> 's world" where
  "commit_multiple_changes_to_remote_branch cfg env apply_patch extract_file_name diffs
      new_branch owner repo token =
    decorated () False
      (commit_multiple_loop cfg env apply_patch extract_file_name diffs new_branch owner repo
         token)"

subsection \<open>Reporting a failure\<close>

definition update_comment_inner ::
  "config \<Rightarrow> 's env \<Rightarrow> string \<Rightarrow> string \<Rightarrow> string \<Rightarrow> 's world \<Rightarrow> (exn + pyval) \<times> 's world" where
  "update_comment_inner cfg env comment_url body token w =
    (case send env
            (request_of cfg PATCH comment_url token (Some (VDict [(''body'', VStr body)]))) w of
       (Inl e, w1) \<Rightarrow> (Inl e, w1)
     | (Inr response, w1) \<Rightarrow>
         (case raise_for_status response of
            Inl e \<Rightarrow> (Inl e, w1)
          | Inr _ \<Rightarrow> (response_json response, w1)))"

definition update_comment ::
  "config \<Rightarrow> 's env \<Rightarrow> string \<Rightarrow> string \<Rightarrow> string \<Rightarrow> 's world \<Rightarrow> (exn + pyval) \<times> 's world" where
  "update_comment cfg env comment_url body token =
    decorated VNone False (update_comment_inner cfg env comment_url body token)"

text \<open>
  \<^verbatim>\<open>hasattr(x, "message") and x.message.find("No commits between main and") != -1\<close>,
  where \<open>x\<close> is \<^verbatim>\<open>error.errors[0]\<close> or \<^verbatim>\<open>error.errors[0][0]\<close>.
\<close>

definition message_mentions_no_commits :: "pyval \<Rightarrow> exn + bool" where
  "message_mentions_no_commits x =
    (if hasattr x ''message'' then
       (case getattr x ''message'' of
          Inl e \<Rightarrow> Inl e
        | Inr m \<Rightarrow>
            (case str_find m ''No commits between main and'' of
               Inl e \<Rightarrow> Inl e
             | Inr i \<Rightarrow> Inr (i \<noteq> - 1)))
     else Inr False)"

text \<open>
  The disjunction of lines 611 to 626. When \<^verbatim>\<open>error.errors[0]\<close> is a list the second
  disjunct is false, and when it is not a list the first one is.
\<close>

definition errors_mention_no_commits :: "error_obj \<Rightarrow> exn + bool" where
  "errors_mention_no_commits error =
    (case attr_errors error of
       Inl e \<Rightarrow> Inl e
     | Inr errors \<Rightarrow>
         (case getitem0 errors of
            Inl e \<Rightarrow> Inl e
          | Inr first \<Rightarrow>
              if isinstance_list first then
                (case getitem0 first of
                   Inl e \<Rightarrow> Inl e
                 | Inr inner \<Rightarrow> message_mentions_no_commits inner)
              else message_mentions_no_commits first))"

text \<open>The condition of lines 607 to 627, evaluated from left to right.\<close>

definition no_changes_condition :: "error_obj \<Rightarrow> exn + bool" where
  "no_changes_condition error =
    (case response_status_code error of
       Inl e \<Rightarrow> Inl e
     | Inr sc \<Rightarrow>
         if sc \<noteq> VInt 422 then Inr False
         else
           (case subscript_message error of
              Inl e \<Rightarrow> Inl e
            | Inr m \<Rightarrow>
                if \<not> truthy m then Inr False
                else
                  (case attr_message error of
                     Inl e \<Rightarrow> Inl e
                   | Inr a \<Rightarrow>
                       if a \<noteq> VStr ''Validation Failed'' then Inr False
                       else errors_mention_no_commits error)))"

text \<open>
  The \<^verbatim>\<open>try\<close> block of \<^verbatim>\<open>update_comment_for_raised_errors\<close>: the records it logs, and
  the body it chooses or the exception that ends it.
\<close>

definition classify :: "config \<Rightarrow> error_obj \<Rightarrow> string \<Rightarrow> event list \<times> (exn + string)" where
  "classify cfg error which_function =
    (if isinstance_HTTPError error then
       (case response_status_code error of
          Inl e \<Rightarrow> ([], Inl e)
        | Inr sc \<Rightarrow>
            (case response_text error of
               Inl e \<Rightarrow> ([], Inl e)
             | Inr tx \<Rightarrow>
                 (let logged = Logged ERROR ''%s HTTP Error: %s - %s''
                                 [AStr which_function, AVal sc, AVal tx] in
                  case no_changes_condition error of
                    Inl e \<Rightarrow> ([logged], Inl e)
                  | Inr c \<Rightarrow>
                      if c then
                        ([logged], Inr (UPDATE_COMMENT_FOR_RAISED_ERRORS_NO_CHANGES_MADE cfg))
                      else
                        ([logged, logged], Inr (UPDATE_COMMENT_FOR_RAISED_ERRORS_BODY cfg)))))
     else
       ([Logged ERROR ''%s Error: %s'' [AStr which_function, AObj error]],
        Inr (UPDATE_COMMENT_FOR_RAISED_ERRORS_BODY cfg)))"

text \<open>The records logged up to the comment update, and the body of the update.\<close>

definition reported :: "config \<Rightarrow> error_obj \<Rightarrow> string \<Rightarrow> event list \<times> string" where
  "reported cfg error which_function =
    (case classify cfg error which_function of
       (logs, Inl e) \<Rightarrow>
         (logs @ [Logged ERROR ''%s Error: %s'' [AStr which_function, AExn e]],
          UPDATE_COMMENT_FOR_RAISED_ERRORS_BODY cfg)
     | (logs, Inr body) \<Rightarrow> (logs, body))"

definition update_comment_for_raised_errors ::
  "config \<Rightarrow> 's env \<Rightarrow> error_obj \<Rightarrow> string \<Rightarrow> string \<Rightarrow> string \<Rightarrow>
   's world \<Rightarrow> (exn + pyval) \<times> 's world" where
  "update_comment_for_raised_errors cfg env error comment_url token which_function w =
    (case reported cfg error which_function of
       (logs, body) \<Rightarrow>
         (case update_comment cfg env comment_url body token
                 \<lparr>outside = outside w, trace = trace w @ logs\<rparr> of
            (Inl e, w1) \<Rightarrow> (Inl e, w1)
          | (Inr _, w1) \<Rightarrow> (Inl (RuntimeError ''Error occurred''), w1)))"

text \<open>
  What an exception object caught by one of the callers answers to the reporter: an
  instance of \<^verbatim>\<open>requests.exceptions.HTTPError\<close> has the attribute \<^verbatim>\<open>response\<close> (which is
  \<^verbatim>\<open>None\<close> when no response was attached); no exception is subscriptable or has an
  attribute \<^verbatim>\<open>message\<close> or \<^verbatim>\<open>errors\<close>.
\<close>

fun error_of_exn :: "exn \<Rightarrow> error_obj" where
  "error_of_exn (HTTPError (Some r)) =
    \<lparr>isinstance_HTTPError = True,
     response_status_code = Inr (VInt (status_code r)),
     response_text = Inr (VStr (resp_text r)),
     subscript_message = Inl (TypeError ''object is not subscriptable''),
     attr_message = Inl (AttributeError ''message''),
     attr_errors = Inl (AttributeError ''errors'')\<rparr>"
| "error_of_exn (HTTPError None) =
    \<lparr>isinstance_HTTPError = True,
     response_status_code = Inl (AttributeError ''status_code''),
     response_text = Inl (AttributeError ''text''),
     subscript_message = Inl (TypeError ''object is not subscriptable''),
     attr_message = Inl (AttributeError ''message''),
     attr_errors = Inl (AttributeError ''errors'')\<rparr>"
| "error_of_exn e =
    \<lparr>isinstance_HTTPError = False,
     response_status_code = Inl (AttributeError ''response''),
     response_text = Inl (AttributeError ''response''),
     subscript_message = Inl (TypeError ''object is not subscriptable''),
     attr_message = Inl (AttributeError ''message''),
     attr_errors = Inl (AttributeError ''errors'')\<rparr>"

subsection \<open>Resolving the head of a branch\<close>

text \<open>\<^verbatim>\<open>os.path.join(a, b)\<close> for a relative \<open>b\<close>.\<close>

definition path_join :: "string \<Rightarrow> string \<Rightarrow> string" where
  "path_join a b = (if a = [] \<or> last a = CHR ''/'' then a @ b else a @ ''/'' @ b)"

text \<open>Local commands run in order; the first one that raises ends the sequence.\<close>

fun run_all :: "'s env \<Rightarrow> sys_call list \<Rightarrow> 's world \<Rightarrow> (exn + unit) \<times> 's world" where
  "run_all env [] w = (Inr (), w)"
| "run_all env (c # cs) w =
    (case syscall env c w of
       (Some e, w1) \<Rightarrow> (Inl e, w1)
     | (None, w1) \<Rightarrow> run_all env cs w1)"

definition initialize_repo ::
  "config \<Rightarrow> 's env \<Rightarrow> string \<Rightarrow> string \<Rightarrow> 's world \<Rightarrow> (exn + unit) \<times> 's world" where
  "initialize_repo cfg env repo_path remote_url w =
    run_all env
      ((if path_exists env repo_path (outside w) then [] else [MakeDirs repo_path])
       @ [RunCommand ''git init'' repo_path,
          WriteFile (path_join repo_path ''README.md'')
            (''# Initial commit by ['' @ PRODUCT_NAME cfg @ '']('' @ PRODUCT_URL cfg @ '')''
             @ [CHR 0x0A]),
          RunCommand ''git add README.md'' repo_path,
          RunCommand (''git commit -m '' @ [CHR 0x22] @ ''Initial commit'' @ [CHR 0x22]) repo_path,
          RunCommand (''git remote add origin '' @ remote_url) repo_path,
          RunCommand ''git push -u origin main'' repo_path])
      w"

definition ref_url :: "config \<Rightarrow> string \<Rightarrow> string \<Rightarrow> string \<Rightarrow> string" where
  "ref_url cfg owner repo branch =
    GITHUB_API_URL cfg @ ''/repos/'' @ owner @ ''/'' @ repo @ ''/git/ref/heads/'' @ branch"

text \<open>The \<^verbatim>\<open>try\<close> block of \<^verbatim>\<open>get_latest_remote_commit_sha\<close>.\<close>

definition ref_lookup ::
  "config \<Rightarrow> 's env \<Rightarrow> string \<Rightarrow> string \<Rightarrow> string \<Rightarrow> string \<Rightarrow>
   's world \<Rightarrow> (exn + pyval) \<times> 's world" where
  "ref_lookup cfg env owner repo branch token w =
    (case send env (request_of cfg GET (ref_url cfg owner repo branch) token None) w of
       (Inl e, w1) \<Rightarrow> (Inl e, w1)
     | (Inr response, w1) \<Rightarrow>
         (case raise_for_status response of
            Inl e \<Rightarrow> (Inl e, w1)
          | Inr _ \<Rightarrow>
              (case response_json response of
                 Inl e \<Rightarrow> (Inl e, w1)
               | Inr j \<Rightarrow>
                   (case getitem_str j ''object'' of
                      Inl e \<Rightarrow> (Inl e, w1)
                    | Inr ob \<Rightarrow> (getitem_str ob ''sha'', w1)))))"

text \<open>
  The test of lines 425 to 428 on the response of a caught \<^verbatim>\<open>HTTPError\<close>; evaluating it
  can raise.
\<close>

definition repository_is_empty :: "response option \<Rightarrow> exn + bool" where
  "repository_is_empty ro =
    (case ro of
       None \<Rightarrow> Inl (AttributeError ''status_code'')
     | Some r \<Rightarrow>
         if status_code r \<noteq> 409 then Inr False
         else
           (case response_json r of
              Inl e \<Rightarrow> Inl e
            | Inr j \<Rightarrow>
                (case getitem_str j ''message'' of
                   Inl e \<Rightarrow> Inl e
                 | Inr m \<Rightarrow> Inr (m = VStr ''Git Repository is empty.''))))"

fun caught_HTTPError :: "exn \<Rightarrow> response option option" where
  "caught_HTTPError (HTTPError ro) = Some ro"
| "caught_HTTPError e = None"

text \<open>
  The handler of \<^verbatim>\<open>Exception\<close>, lines 443 to 453: the failure reporter, then the
  \<^verbatim>\<open>raise\<close> of line 451, which is reached only if the reporter returns.
\<close>

definition except_Exception ::
  "config \<Rightarrow> 's env \<Rightarrow> exn \<Rightarrow> string \<Rightarrow> string \<Rightarrow> 's world \<Rightarrow> (exn + pyval) \<times> 's world" where
  "except_Exception cfg env e comment_url token w =
    (case update_comment_for_raised_errors cfg env (error_of_exn e) comment_url token
            ''get_latest_remote_commit_sha'' w of
       (Inl e', w1) \<Rightarrow> (Inl e', w1)
     | (Inr _, w1) \<Rightarrow>
         (Inl (RuntimeError
            ''Error: Could not get the latest commit SHA in get_latest_remote_commit_sha''),
          w1))"

text \<open>
  \<^verbatim>\<open>get_latest_remote_commit_sha\<close> calls itself after a bootstrap, one Python call inside
  the other, with nothing in the code that counts the calls. What ends a run that keeps
  finding the repository empty is the recursion limit of the interpreter: \<open>frames\<close> is
  the number of nested calls of the function whose body the interpreter still has room to
  run (\<^verbatim>\<open>sys.getrecursionlimit()\<close>, less the depth of the caller and of the calls a body
  makes below itself). With no room left, the first call the body makes, inside the
  \<^verbatim>\<open>try\<close>, raises \<^verbatim>\<open>RecursionError\<close> before any request is made; it is an
  \<^verbatim>\<open>Exception\<close> and not an \<^verbatim>\<open>HTTPError\<close>, so the handler of line 443 reports it.

  An exception raised inside the handler of \<^verbatim>\<open>HTTPError\<close>, the bare \<^verbatim>\<open>raise\<close>
  included, leaves the \<^verbatim>\<open>try\<close> statement: the handler of \<^verbatim>\<open>Exception\<close> beside it does
  not see it.
\<close>

fun get_latest_remote_commit_sha ::
  "nat \<Rightarrow> config \<Rightarrow> 's env \<Rightarrow> string \<Rightarrow> string \<Rightarrow> string \<Rightarrow> string \<Rightarrow> string \<Rightarrow> string \<Rightarrow>
   string \<Rightarrow> 's world \<Rightarrow> (exn + pyval) \<times> 's world" where
  "get_latest_remote_commit_sha 0 cfg env owner repo branch comment_url unique_issue_id
      clone_url token w =
    except_Exception cfg env RecursionError comment_url token w"
| "get_latest_remote_commit_sha (Suc frames) cfg env owner repo branch comment_url
      unique_issue_id clone_url token w =
    (case ref_lookup cfg env owner repo branch token w of
       (Inr sha, w1) \<Rightarrow> (Inr sha, w1)
     | (Inl e, w1) \<Rightarrow>
         (case caught_HTTPError e of
            Some ro \<Rightarrow>
              (case repository_is_empty ro of
                 Inl e' \<Rightarrow> (Inl e', w1)
               | Inr is_empty \<Rightarrow>
                   if is_empty then
                     (case initialize_repo cfg env (''/tmp/repo/'' @ owner @ ''-'' @ repo) clone_url
                             (logging INFO
                                ''Repository is empty. So, creating an initial empty commit.''
                                [] w1) of
                        (Inl e', w2) \<Rightarrow> (Inl e', w2)
                      | (Inr _, w2) \<Rightarrow>
                          get_latest_remote_commit_sha frames cfg env owner repo branch
                            comment_url unique_issue_id clone_url token w2)
                   else (Inl e, w1))
          | None \<Rightarrow> except_Exception cfg env e comment_url token w1))"


subsection \<open>Reading a file\<close>

text \<open>
  \<^verbatim>\<open>describe_image\<close> of \<^verbatim>\<open>services.openai.vision\<close> is a parameter.
\<close>

definition is_image_path :: "string \<Rightarrow> bool" where
  "is_image_path file_path =
    list_ex (\<lambda>ext. suffix ext file_path) [''.png'', ''.jpeg'', ''.jpg'', ''.webp'', ''.gif'']"

definition get_remote_file_content_inner ::
  "config \<Rightarrow> 's env \<Rightarrow> (pyval \<Rightarrow> exn + string) \<Rightarrow> string \<Rightarrow> string \<Rightarrow> string \<Rightarrow> string \<Rightarrow> string \<Rightarrow>
   's world \<Rightarrow> (exn + string) \<times> 's world" where
  "get_remote_file_content_inner cfg env describe_image file_path owner ref repo token w =
    (case send env
            (request_of cfg GET (contents_url cfg owner repo file_path @ ''?ref='' @ ref) token
               None) w of
       (Inl e, w1) \<Rightarrow> (Inl e, w1)
     | (Inr response, w1) \<Rightarrow>
         (case raise_for_status response of
            Inl e \<Rightarrow> (Inl e, w1)
          | Inr _ \<Rightarrow>
              (case response_json response of
                 Inl e \<Rightarrow> (Inl e, w1)
               | Inr j \<Rightarrow>
                   (case getitem_str j ''content'' of
                      Inl e \<Rightarrow> (Inl e, w1)
                    | Inr encoded_content \<Rightarrow>
                        if is_image_path file_path then (describe_image encoded_content, w1)
                        else
                          (case b64decode encoded_content of
                             Inl e \<Rightarrow> (Inl e, w1)
                           | Inr raw \<Rightarrow> (bytes_decode raw Strict, w1))))))"

definition get_remote_file_content ::
  "config \<Rightarrow> 's env \<Rightarrow> (pyval \<Rightarrow> exn + string) \<Rightarrow> string \<Rightarrow> string \<Rightarrow> string \<Rightarrow> string \<Rightarrow> string \<Rightarrow>
   's world \<Rightarrow> (exn + string) \<times> 's world" where
  "get_remote_file_content cfg env describe_image file_path owner ref repo token =
    decorated [] False
      (get_remote_file_content_inner cfg env describe_image file_path owner ref repo token)"

subsection \<open>Verifying the signature of a webhook\<close>

definition hexdigest :: "string \<Rightarrow> string" where
  "hexdigest digest =
    concat (map (\<lambda>c. [''0123456789abcdef'' ! ((of_char c :: nat) div 16),
                       ''0123456789abcdef'' ! ((of_char c :: nat) mod 16)]) digest)"

text \<open>
  \<^verbatim>\<open>hmac.compare_digest\<close> on two \<^verbatim>\<open>str\<close>: both must be ASCII, and a \<^verbatim>\<open>TypeError\<close> is
  raised otherwise.
\<close>

definition compare_digest :: "string \<Rightarrow> string \<Rightarrow> exn + bool" where
  "compare_digest a b =
    (if is_ascii a \<and> is_ascii b then Inr (a = b)
     else Inl (TypeError ''comparing strings with non-ASCII characters is not supported''))"

text \<open>
  The request is given by what the function reads from it: \<open>signature\<close> is
  \<^verbatim>\<open>request.headers.get("X-Hub-Signature-256")\<close> and \<open>body\<close> is \<^verbatim>\<open>await request.body()\<close>.
  The HMAC-SHA256 primitive \<^verbatim>\<open>hmac.new(key, msg, hashlib.sha256).digest()\<close> is the
  parameter \<open>hmac_sha256\<close>.
\<close>

definition verify_webhook_signature_inner ::
  "(string \<Rightarrow> string \<Rightarrow> string) \<Rightarrow> string option \<Rightarrow> string \<Rightarrow> string \<Rightarrow> exn + unit" where
  "verify_webhook_signature_inner hmac_sha256 signature body secret =
    (case signature of
       None \<Rightarrow> Inl (ValueError ''Missing webhook signature'')
     | Some sig \<Rightarrow>
         (let hmac_key = str_encode secret;
              hmac_signature = hexdigest (hmac_sha256 hmac_key body);
              expected_signature = ''sha256='' @ hmac_signature
          in case compare_digest sig expected_signature of
               Inl e \<Rightarrow> Inl e
             | Inr equal \<Rightarrow>
                 if \<not> equal then Inl (ValueError ''Invalid webhook signature'') else Inr ()))"

definition verify_webhook_signature ::
  "(string \<Rightarrow> string \<Rightarrow> string) \<Rightarrow> string option \<Rightarrow> string \<Rightarrow> string \<Rightarrow> exn + unit" where
  "verify_webhook_signature hmac_sha256 signature body secret =
    handle_exceptions () True (verify_webhook_signature_inner hmac_sha256 signature body secret)"

section \<open>Reading a trace\<close>

text \<open>The requests of a trace, in order; those that write; the bootstraps that were started.\<close>

fun sent :: "event list \<Rightarrow> request list" where
  "sent [] = []"
| "sent (Sent r # es) = r # sent es"
| "sent (e # es) = sent es"

definition writes :: "event list \<Rightarrow> request list" where
  "writes es = filter (\<lambda>r. req_method r = PUT) (sent es)"

fun is_git_init :: "event \<Rightarrow> bool" where
  "is_git_init (Sys (RunCommand c d)) = (c = ''git init'')"
| "is_git_init e = False"

definition bootstraps :: "event list \<Rightarrow> nat" where
  "bootstraps es = length (filter is_git_init es)"

section \<open>A scripted environment\<close>

text \<open>
  An environment for running the functions on concrete inputs: the remote side answers
  the requests from a script, in order (a request beyond the script fails to connect);
  local commands succeed and no path exists.
\<close>

definition scripted :: "(exn + response) list env" where
  "scripted =
    \<lparr>http = (\<lambda>req s. case s of
                        [] \<Rightarrow> (Inl (RequestException ''connection failed''), [])
                      | r # rs \<Rightarrow> (r, rs)),
     path_exists = (\<lambda>p s. False),
     sys = (\<lambda>c s. (None, s))\<rparr>"

definition start :: "'s \<Rightarrow> 's world" where
  "start s = \<lparr>outside = s, trace = []\<rparr>"

text \<open>Inputs for the runs on concrete data.\<close>

definition example_config :: config where
  "example_config =
    \<lparr>GITHUB_API_URL = ''https://api.github.com'',
     GITHUB_API_VERSION = ''2022-11-28'',
     TIMEOUT_IN_SECONDS = 120,
     PRODUCT_NAME = ''GitAuto'',
     PRODUCT_URL = ''https://gitauto.ai'',
     UPDATE_COMMENT_FOR_RAISED_ERRORS_BODY = ''Sorry, we have an error. Please try again.'',
     UPDATE_COMMENT_FOR_RAISED_ERRORS_NO_CHANGES_MADE = ''No changes were detected.''\<rparr>"

definition answer :: "int \<Rightarrow> pyval \<Rightarrow> response" where
  "answer code j = \<lparr>status_code = code, resp_text = [], json = Some j\<rparr>"

text \<open>
  Stand-ins for \<^verbatim>\<open>apply_patch\<close>: a patch whose result is a given text, and the
  application of a diff that adds its text at the end of the file, which yields no change
  when the file ends with that text already. A stand-in for \<^verbatim>\<open>extract_file_name\<close>: the
  name is the first line of the diff.
\<close>

definition patch_gives :: "string \<Rightarrow> string \<Rightarrow> string \<Rightarrow> exn + string" where
  "patch_gives result original_text diff_text = Inr result"


definition first_line :: "string \<Rightarrow> exn + string" where
  "first_line diff_text = Inr (takeWhile (\<lambda>c. c \<noteq> CHR 0x0A) diff_text)"

text \<open>The answer to a read of a file that holds the line \<^verbatim>\<open>hello\<close>.\<close>

definition hello_file :: pyval where
  "hello_file = VDict [(''content'', VStr ''aGVsbG8K''), (''sha'', VStr ''ce013625'')]"


definition three_lines :: string where
  "three_lines = ''line 1\<newline>line 2\<newline>line 3\<newline>''"

text \<open>
  Two diffs, and a remote side that refuses the write of the first file with a conflict
  and accepts that of the second.
\<close>

definition name_line :: "string \<Rightarrow> string" where
  "name_line diff_text = takeWhile (\<lambda>c. c \<noteq> CHR 0x0A) diff_text"

definition two_diffs :: "string list" where
  "two_diffs = [''a.txt\<newline>+one'', ''b.txt\<newline>+two'']"

definition conflict_script :: "(exn + response) list" where
  "conflict_script =
    [Inr (answer 404 VNone), Inr (answer 409 VNone), Inr (answer 404 VNone),
     Inr (answer 201 VNone)]"

text \<open>
  The answer of the remote side to a pull request without commits, and an object that,
  unlike an exception, can be subscripted and has the attributes \<^verbatim>\<open>message\<close> and
  \<^verbatim>\<open>errors\<close>.
\<close>

definition no_commits_response :: response where
  "no_commits_response =
    \<lparr>status_code = 422, resp_text = ''Validation Failed'',
     json = Some (VDict [(''message'', VStr ''Validation Failed''),
                         (''errors'', VList [VDict [(''message'',
                            VStr ''No commits between main and feature-1'')]])])\<rparr>"

definition duck_typed_error :: error_obj where
  "duck_typed_error =
    \<lparr>isinstance_HTTPError = True,
     response_status_code = Inr (VInt 422),
     response_text = Inr (VStr ''Validation Failed''),
     subscript_message = Inr (VStr ''Validation Failed''),
     attr_message = Inr (VStr ''Validation Failed''),
     attr_errors = Inr (VList [VObj [(''message'',
        VStr ''No commits between main and feature-1'')]])\<rparr>"



definition not_found_response :: response where
  "not_found_response = answer 404 (VDict [(''message'', VStr ''Not Found'')])"

text \<open>The local commands of one bootstrap, when the directory does not exist yet.\<close>

definition bootstrap_commands :: "config \<Rightarrow> string \<Rightarrow> string \<Rightarrow> sys_call list" where
  "bootstrap_commands cfg repo_path remote_url =
    [MakeDirs repo_path,
     RunCommand ''git init'' repo_path,
     WriteFile (path_join repo_path ''README.md'')
       (''# Initial commit by ['' @ PRODUCT_NAME cfg @ '']('' @ PRODUCT_URL cfg @ '')''
        @ [CHR 0x0A]),
     RunCommand ''git add README.md'' repo_path,
     RunCommand (''git commit -m '' @ [CHR 0x22] @ ''Initial commit'' @ [CHR 0x22]) repo_path,
     RunCommand (''git remote add origin '' @ remote_url) repo_path,
     RunCommand ''git push -u origin main'' repo_path]"


text \<open>
  A stand-in for the HMAC primitive, for runs on concrete data, and the answer to a read
  of a file whose only byte, \<^verbatim>\<open>0xFF\<close>, is not UTF-8.
\<close>

definition stand_in_hmac :: "string \<Rightarrow> string \<Rightarrow> string" where
  "stand_in_hmac key msg = key @ msg"

definition undecodable_file :: pyval where
  "undecodable_file = VDict [(''content'', VStr ''/w==''), (''sha'', VStr ''9d1d35e0'')]"

section \<open>Properties of the codecs\<close>

subsection \<open>Base64 decodes what it encodes\<close>

lemma div16_join: "(y::nat) < 256 \<Longrightarrow> (r * 16 + y div 16) div 16 = r"
  by (simp add: less_mult_imp_div_less)
lemma mod16_join: "(y::nat) < 256 \<Longrightarrow> (r * 16 + y div 16) mod 16 = y div 16"
  by (simp add: less_mult_imp_div_less)
lemma div4_join: "(z::nat) < 256 \<Longrightarrow> (r * 4 + z div 64) div 4 = r"
  by (simp add: less_mult_imp_div_less)
lemma mod4_join: "(z::nat) < 256 \<Longrightarrow> (r * 4 + z div 64) mod 4 = z div 64"
  by (simp add: less_mult_imp_div_less)
lemma sextet_mid1: "(y::nat) < 256 \<Longrightarrow> x mod 4 * 16 + y div 16 < 64"
proof -
  assume "y < 256"
  then have "y div 16 < 16" by simp
  moreover have "x mod 4 < 4" by simp
  ultimately show ?thesis by linarith
qed
lemma sextet_mid2: "(z::nat) < 256 \<Longrightarrow> y mod 16 * 4 + z div 64 < 64"
proof -
  assume "z < 256"
  then have "z div 64 < 4" by simp
  moreover have "y mod 16 < 16" by simp
  ultimately show ?thesis by linarith
qed

lemma sextet_hi: "(x::nat) < 256 \<Longrightarrow> x div 4 < 64" by simp
lemma sextet_pad1: "(x::nat) mod 4 * 16 < 64"
proof -
  have "x mod 4 < 4" by simp
  then show ?thesis by linarith
qed
lemma sextet_pad2: "(y::nat) mod 16 * 4 < 64"
proof -
  have "y mod 16 < 16" by simp
  then show ?thesis by linarith
qed
lemma sextet_lo: "(x::nat) mod 64 < 64" by simp

lemma table_a2b_b2a: "n < 64 \<Longrightarrow> table_a2b (table_b2a n) = Some n"
proof -
  assume n: "n < 64"
  have d: "distinct b64_alphabet" unfolding b64_alphabet_def by simp
  have l: "length b64_alphabet = 64" unfolding b64_alphabet_def by simp
  have "map_of (zip b64_alphabet [0..<64]) (b64_alphabet ! n) = Some ([0..<64] ! n)"
    using d l n by (intro map_of_zip_nth) auto
  then show ?thesis using n by (simp add: table_a2b_def table_b2a_def)
qed

lemma table_b2a_in: "n < 64 \<Longrightarrow> table_b2a n \<in> set b64_alphabet"
  unfolding table_b2a_def by (rule nth_mem) (simp add: b64_alphabet_def)

lemma alphabet_ascii: "c \<in> set b64_alphabet \<Longrightarrow> (of_char c :: nat) < 128 \<and> c \<noteq> CHR ''=''"
  unfolding b64_alphabet_def by auto

lemma table_b2a_not_pad: "n < 64 \<Longrightarrow> table_b2a n \<noteq> CHR ''=''"
  using table_b2a_in alphabet_ascii by blast

lemma table_b2a_ascii: "n < 64 \<Longrightarrow> (of_char (table_b2a n) :: nat) < 128"
  using table_b2a_in alphabet_ascii by blast

lemma byte_bound: "(of_char c :: nat) < 256"
  by (rule of_char_mod_256 [where ?'a = nat, THEN ssubst]) simp

lemma a2b_quad:
  assumes "n0 < 64" "n1 < 64" "n2 < 64" "n3 < 64"
  shows "a2b_base64 (table_b2a n0 # table_b2a n1 # table_b2a n2 # table_b2a n3 # cs) 0 l 0 out =
    a2b_base64 cs 0 0 0
      (out @ [char_of (n0 * 4 + n1 div 16), char_of (n1 mod 16 * 16 + n2 div 4),
              char_of (n2 mod 4 * 64 + n3)])"
  using assms by (simp add: table_a2b_b2a table_b2a_not_pad)

lemma a2b_tail2:
  assumes "n0 < 64" "n1 < 64" "n2 < 64"
  shows "a2b_base64 [table_b2a n0, table_b2a n1, table_b2a n2, CHR ''=''] 0 l 0 out =
    Inr (out @ [char_of (n0 * 4 + n1 div 16), char_of (n1 mod 16 * 16 + n2 div 4)])"
  using assms by (simp add: table_a2b_b2a table_b2a_not_pad)

lemma a2b_tail1:
  assumes "n0 < 64" "n1 < 64"
  shows "a2b_base64 [table_b2a n0, table_b2a n1, CHR ''='', CHR ''=''] 0 l 0 out =
    Inr (out @ [char_of (n0 * 4 + n1 div 16)])"
  using assms by (simp add: table_a2b_b2a table_b2a_not_pad)

lemma join_first: "char_of ((of_char a :: nat) div 4 * 4 + (of_char a mod 4 * 16 + (of_char b :: nat) div 16) div 16) = a"
  by (simp only: div16_join [OF byte_bound]) simp

lemma join_first_padded: "char_of ((of_char a :: nat) div 4 * 4 + (of_char a mod 4 * 16) div 16) = a"
  by simp

lemma join_second: "char_of (((of_char a :: nat) mod 4 * 16 + (of_char b :: nat) div 16) mod 16 * 16
    + (of_char b mod 16 * 4 + (of_char c :: nat) div 64) div 4) = b"
  by (simp only: mod16_join [OF byte_bound] div4_join [OF byte_bound]) simp

lemma join_second_padded: "char_of (((of_char a :: nat) mod 4 * 16 + (of_char b :: nat) div 16) mod 16 * 16
    + (of_char b mod 16 * 4) div 4) = b"
  by (simp only: mod16_join [OF byte_bound]) simp

lemma join_third: "char_of (((of_char b :: nat) mod 16 * 4 + (of_char c :: nat) div 64) mod 4 * 64
    + of_char c mod 64) = c"
  by (simp only: mod4_join [OF byte_bound]) simp

lemma a2b_base64_b64encode: "a2b_base64 (b64encode bs) 0 l 0 out = Inr (out @ bs)"
proof (induction bs arbitrary: l out rule: b64encode.induct)
  case 1
  show ?case by simp
next
  case (2 a)
  have "(of_char a :: nat) div 4 < 64" "(of_char a :: nat) mod 4 * 16 < 64"
    by (rule sextet_hi [OF byte_bound], rule sextet_pad1)
  then show ?case
    by (simp only: b64encode.simps Let_def a2b_tail1 join_first_padded)
next
  case (3 a b)
  have "(of_char a :: nat) div 4 < 64" "(of_char a :: nat) mod 4 * 16 + (of_char b :: nat) div 16 < 64"
    "(of_char b :: nat) mod 16 * 4 < 64"
    by (rule sextet_hi [OF byte_bound], rule sextet_mid1 [OF byte_bound], rule sextet_pad2)
  then show ?case
    by (simp only: b64encode.simps Let_def a2b_tail2 join_first join_second_padded)
next
  case (4 a b c rest)
  have "(of_char a :: nat) div 4 < 64" "(of_char a :: nat) mod 4 * 16 + (of_char b :: nat) div 16 < 64"
    "(of_char b :: nat) mod 16 * 4 + (of_char c :: nat) div 64 < 64" "(of_char c :: nat) mod 64 < 64"
    by (rule sextet_hi [OF byte_bound], rule sextet_mid1 [OF byte_bound], rule sextet_mid2 [OF byte_bound], rule sextet_lo)
  then show ?case
    by (simp only: b64encode.simps Let_def append.simps a2b_quad join_first join_second join_third "4.IH")
      simp
qed

subsection \<open>ASCII text, and decoding with replacement\<close>

lemma is_ascii_b64encode: "is_ascii (b64encode bs)"
proof (induction bs rule: b64encode.induct)
  case 1
  show ?case by (simp add: is_ascii_def)
next
  case (2 a)
  show ?case
    by (simp add: is_ascii_def Let_def table_b2a_ascii sextet_hi [OF byte_bound] sextet_pad1)
next
  case (3 a b)
  show ?case
    by (simp add: is_ascii_def Let_def table_b2a_ascii sextet_hi [OF byte_bound]
        sextet_mid1 [OF byte_bound] sextet_pad2)
next
  case (4 a b c rest)
  then show ?case
    by (simp add: is_ascii_def Let_def table_b2a_ascii sextet_hi [OF byte_bound]
        sextet_mid1 [OF byte_bound] sextet_mid2 [OF byte_bound])
qed

lemma decode_loop_ascii: "is_ascii s \<Longrightarrow> length s \<le> k \<Longrightarrow> decode_loop k p s = Inr s"
proof (induction s arbitrary: k)
  case Nil
  then show ?case by (cases k) simp_all
next
  case (Cons c cs)
  then obtain k' where k: "k = Suc k'" by (cases k) auto
  from Cons.prems have c: "(of_char c :: nat) < 128" and cs: "is_ascii cs"
    by (simp_all add: is_ascii_def)
  have "decode_loop k' p cs = Inr cs" using Cons.IH [OF cs] Cons.prems k by simp
  then show ?case using c by (simp add: k)
qed

lemma bytes_decode_ascii: "is_ascii s \<Longrightarrow> bytes_decode s p = Inr s"
  by (simp add: bytes_decode_def decode_loop_ascii)

lemma decode_loop_Replace: "\<exists>s. decode_loop k Replace bs = Inr s"
proof (induction k arbitrary: bs)
  case 0
  show ?case by simp
next
  case (Suc k)
  obtain ok n where scan: "utf8_scan bs = (ok, n)" by (cases "utf8_scan bs")
  obtain s where "decode_loop k Replace (drop n bs) = Inr s" using Suc by blast
  then show ?case using scan by (cases ok) simp_all
qed

lemma bytes_decode_Replace: "\<exists>s. bytes_decode bs Replace = Inr s"
  by (simp add: bytes_decode_def decode_loop_Replace)

text \<open>
  The fuel of \<open>bytes_decode\<close> is enough: a step consumes at least one byte, so the loop
  reaches the end of the input before the fuel is spent, and more fuel changes nothing.
\<close>

lemma utf8_scan_pos: "0 < snd (utf8_scan bs)"
  by (cases bs) (auto simp: Let_def split: list.splits)

lemma decode_loop_Suc: "length bs \<le> k \<Longrightarrow> decode_loop (Suc k) p bs = decode_loop k p bs"
proof (induction k arbitrary: bs)
  case 0
  then show ?case by simp
next
  case (Suc k)
  show ?case
  proof (cases "bs = []")
    case True
    then show ?thesis by simp
  next
    case False
    obtain ok n where scan: "utf8_scan bs = (ok, n)" by (cases "utf8_scan bs")
    have "0 < n" using utf8_scan_pos [of bs] scan by simp
    then have "length (drop n bs) \<le> k" using Suc.prems False by (cases bs) auto
    then have step: "decode_loop (Suc k) p (drop n bs) = decode_loop k p (drop n bs)"
      by (rule Suc.IH)
    show ?thesis
      by (simp only: decode_loop.simps(2) [of "Suc k" p bs] decode_loop.simps(2) [of k p bs]
          scan prod.case step)
  qed
qed

lemma decode_loop_fuel: "length bs \<le> k \<Longrightarrow> decode_loop k p bs = bytes_decode bs p"
proof (induction "k - length bs" arbitrary: k)
  case 0
  then show ?case by (simp add: bytes_decode_def)
next
  case (Suc d)
  then obtain k' where k: "k = Suc k'" and le: "length bs \<le> k'" and d: "d = k' - length bs"
    by (cases k) auto
  show ?case using Suc.hyps(1) [OF d le] decode_loop_Suc [OF le, of p] k by simp
qed

lemma b64decode_b64encode: "b64decode (VStr (b64encode bs)) = Inr bs"
  using a2b_base64_b64encode [of bs 0 "[]"] by (simp add: is_ascii_b64encode)

lemma content_of_text: "bytes_decode (b64encode (str_encode m)) Strict = Inr (b64encode m)"
  by (simp add: str_encode_def bytes_decode_ascii is_ascii_b64encode)

section \<open>The content mutation engine\<close>

lemma sent_append: "sent (xs @ ys) = sent xs @ sent ys"
  by (induction xs rule: sent.induct) simp_all

lemma writes_append: "writes (xs @ ys) = writes xs @ writes ys"
  by (simp add: writes_def sent_append)

lemma send_world:
  "send env req w = (r, w1) \<Longrightarrow> trace w1 = trace w @ [Sent req]"
  by (auto simp: send_def split: prod.splits)

lemma decorated_False:
  "decorated d False f w = (Inr (case fst (f w) of Inl e \<Rightarrow> d | Inr v \<Rightarrow> v), snd (f w))"
  by (simp add: decorated_def handle_exceptions_def split: prod.splits sum.splits)

lemma commit_changes_returns:
  "commit_changes_to_remote_branch cfg env apply_patch branch commit_message diff_text file_path
     owner repo token w =
   (Inr (), snd (commit_changes_inner cfg env apply_patch branch commit_message diff_text
      file_path owner repo token w))"
  by (simp add: commit_changes_to_remote_branch_def decorated_False)

lemma commit_inner_no_write:
  assumes "send env (request_of cfg GET (contents_url cfg owner repo file_path) token None) w
      = (Inr response, w1)"
    and "read_file_info response = Inr (original_text, sha)"
    and "apply_patch original_text diff_text = Inr []"
  shows "commit_changes_inner cfg env apply_patch branch commit_message diff_text file_path owner
      repo token w = (Inr (), w1)"
  using assms by (simp add: commit_changes_inner_def)

lemma commit_inner_write:
  assumes "send env (request_of cfg GET (contents_url cfg owner repo file_path) token None) w
      = (Inr response, w1)"
    and "read_file_info response = Inr (original_text, sha)"
    and "apply_patch original_text diff_text = Inr modified_text"
    and "modified_text \<noteq> []"
  shows "trace (snd (commit_changes_inner cfg env apply_patch branch commit_message diff_text
      file_path owner repo token w)) =
    trace w @
      [Sent (request_of cfg GET (contents_url cfg owner repo file_path) token None),
       Sent (request_of cfg PUT (contents_url cfg owner repo file_path) token
         (Some (put_data commit_message (b64encode modified_text) branch sha)))]"
proof -
  obtain r2 w2 where put: "send env (request_of cfg PUT (contents_url cfg owner repo file_path) token
         (Some (put_data commit_message (b64encode modified_text) branch sha))) w1 = (r2, w2)"
    by (cases "send env (request_of cfg PUT (contents_url cfg owner repo file_path) token
         (Some (put_data commit_message (b64encode modified_text) branch sha))) w1")
  have "snd (commit_changes_inner cfg env apply_patch branch commit_message diff_text
      file_path owner repo token w) = w2"
    using assms put by (simp add: commit_changes_inner_def content_of_text split: sum.splits)
  then show ?thesis using send_world [OF put] send_world [OF assms(1)] by simp
qed

lemma read_hello: "read_file_info (answer 200 hello_file) = Inr (''hello\<newline>'', VStr ''ce013625'')"
  by code_simp

lemma scripted_send: "send scripted req \<lparr>outside = r # rs, trace = tr\<rparr> = (r, \<lparr>outside = rs, trace = tr @ [Sent req]\<rparr>)"
  by (simp add: send_def scripted_def)

text \<open>
  C10. Whenever the patched text is the empty string, also for a non-empty baseline whose
  whole content the patch removes, \<^verbatim>\<open>commit_changes_to_remote_branch\<close> returns
  \<^verbatim>\<open>None\<close> after the read alone: the world it leaves is the one the \<^verbatim>\<open>GET\<close> left, no
  \<^verbatim>\<open>PUT\<close> was sent, and the removal never reaches the remote file.
\<close>

theorem empty_patch_result_is_not_written:
  assumes "send env (request_of cfg GET (contents_url cfg owner repo file_path) token None) w
      = (Inr response, w1)"
    and "read_file_info response = Inr (original_text, sha)"
    and "apply_patch original_text diff_text = Inr []"
  shows "commit_changes_to_remote_branch cfg env apply_patch branch commit_message diff_text
      file_path owner repo token w = (Inr (), w1) \<and>
    outside w1 = snd (http env (request_of cfg GET (contents_url cfg owner repo file_path) token None) (outside w)) \<and>
    writes (trace w1) = writes (trace w)"
proof -
  have "writes (trace w1) = writes (trace w)"
    using send_world [OF assms(1)] by (simp add: writes_append) (simp add: writes_def request_of_def)
  moreover have "outside w1 = snd (http env (request_of cfg GET (contents_url cfg owner repo file_path) token None) (outside w))"
    using assms(1) by (auto simp: send_def split: prod.splits)
  ultimately show ?thesis
    using commit_inner_no_write [where apply_patch = apply_patch, OF assms] by (simp add: commit_changes_returns)
qed

theorem empty_patch_result_is_not_written_witness:
  "read_file_info (answer 200 hello_file) = Inr (''hello\<newline>'', VStr ''ce013625'') \<and>
   patch_gives [] ''hello\<newline>'' ''d'' = Inr [] \<and>
   commit_changes_to_remote_branch example_config scripted (patch_gives []) ''main''
     ''Update a.txt'' ''d'' ''a.txt'' ''o'' ''r'' ''t'' (start [Inr (answer 200 hello_file)]) =
   (Inr (), \<lparr>outside = [],
      trace = [Sent (request_of example_config GET
                 (contents_url example_config ''o'' ''r'' ''a.txt'') ''t'' None)]\<rparr>)"
proof -
  have g: "send scripted (request_of example_config GET
      (contents_url example_config ''o'' ''r'' ''a.txt'') ''t'' None)
      (start [Inr (answer 200 hello_file)]) =
    (Inr (answer 200 hello_file), \<lparr>outside = [],
      trace = [Sent (request_of example_config GET
                 (contents_url example_config ''o'' ''r'' ''a.txt'') ''t'' None)]\<rparr>)"
    by (simp add: start_def scripted_send)
  have p: "patch_gives [] ''hello\<newline>'' ''d'' = Inr []" by (simp add: patch_gives_def)
  show ?thesis
    using empty_patch_result_is_not_written [where apply_patch = "patch_gives []", OF g read_hello p]
      read_hello p by simp
qed

lemma read_file_info_404: "status_code response = 404 \<Longrightarrow> read_file_info response = Inr ([], VStr [])"
  by (simp add: read_file_info_def)

lemma read_file_info_200:
  assumes "status_code response = 200" "json response = Some (VDict file_info)"
    and "map_of file_info ''content'' = Some content" "b64decode content = Inr raw"
    and "bytes_decode raw Replace = Inr original_text" "map_of file_info ''sha'' = Some sha"
  shows "read_file_info response = Inr (original_text, sha)"
  using assms by (simp add: read_file_info_def response_json_def)

lemma commit_changes_sends:
  assumes "send env (request_of cfg GET (contents_url cfg owner repo file_path) token None) w
      = (Inr response, w1)"
    and "read_file_info response = Inr (original_text, sha)"
    and "apply_patch original_text diff_text = Inr modified_text"
    and "modified_text \<noteq> []"
  shows "sent (trace (snd (commit_changes_to_remote_branch cfg env apply_patch branch
      commit_message diff_text file_path owner repo token w))) =
    sent (trace w) @
      [request_of cfg GET (contents_url cfg owner repo file_path) token None,
       request_of cfg PUT (contents_url cfg owner repo file_path) token
         (Some (put_data commit_message (b64encode modified_text) branch sha))]"
  using commit_inner_write [where apply_patch = apply_patch, OF assms]
  by (simp add: commit_changes_returns sent_append)

lemma encode_three_lines: "b64encode three_lines = ''bGluZSAxCmxpbmUgMgpsaW5lIDMK''"
  unfolding three_lines_def by code_simp

lemma encode_hello_world: "b64encode ''hello\<newline>world\<newline>'' = ''aGVsbG8Kd29ybGQK''"
  by code_simp

lemma decode_hello: "b64decode (VStr ''aGVsbG8K'') = Inr ''hello\<newline>''"
  by code_simp

lemma decode_hello_text: "bytes_decode ''hello\<newline>'' Replace = Inr ''hello\<newline>''"
  by code_simp

lemma scripted_send_start:
  "send scripted req (start (r # rs)) = (r, \<lparr>outside = rs, trace = [Sent req]\<rparr>)"
  by (simp add: start_def scripted_send)

text \<open>
  C8. When the read answers 404 the baseline is the empty string and the write carries
  the keys \<^verbatim>\<open>message\<close>, \<^verbatim>\<open>content\<close> and \<^verbatim>\<open>branch\<close> only, with no \<^verbatim>\<open>sha\<close>: it
  creates the file. When the read answers 200 the write carries the version tag the read
  observed (a tag is never the empty string). In both cases the content written is the
  Base64 of the patched text, which decodes to exactly that text: a diff that adds three
  lines to a missing file creates the file with those three lines.
\<close>

theorem write_carries_observed_version_tag:
  assumes "send env (request_of cfg GET (contents_url cfg owner repo file_path) token None) w
      = (Inr response, w1)"
    and "modified_text \<noteq> []"
  shows
    "(status_code response = 404 \<longrightarrow> apply_patch [] diff_text = Inr modified_text \<longrightarrow>
        sent (trace (snd (commit_changes_to_remote_branch cfg env apply_patch branch
          commit_message diff_text file_path owner repo token w))) =
        sent (trace w) @
          [request_of cfg GET (contents_url cfg owner repo file_path) token None,
           request_of cfg PUT (contents_url cfg owner repo file_path) token
             (Some (VDict [(''message'', VStr commit_message),
                           (''content'', VStr (b64encode modified_text)),
                           (''branch'', VStr branch)]))]) \<and>
     (status_code response = 200 \<longrightarrow> json response = Some (VDict file_info) \<longrightarrow>
        map_of file_info ''content'' = Some content \<longrightarrow> b64decode content = Inr raw \<longrightarrow>
        bytes_decode raw Replace = Inr original_text \<longrightarrow>
        map_of file_info ''sha'' = Some sha \<longrightarrow> sha \<noteq> VStr [] \<longrightarrow>
        apply_patch original_text diff_text = Inr modified_text \<longrightarrow>
        sent (trace (snd (commit_changes_to_remote_branch cfg env apply_patch branch
          commit_message diff_text file_path owner repo token w))) =
        sent (trace w) @
          [request_of cfg GET (contents_url cfg owner repo file_path) token None,
           request_of cfg PUT (contents_url cfg owner repo file_path) token
             (Some (VDict [(''message'', VStr commit_message),
                           (''content'', VStr (b64encode modified_text)),
                           (''branch'', VStr branch), (''sha'', sha)]))]) \<and>
     b64decode (VStr (b64encode modified_text)) = Inr modified_text"
proof (intro conjI impI)
  assume "status_code response = 404" and p: "apply_patch [] diff_text = Inr modified_text"
  then have r: "read_file_info response = Inr ([], VStr [])" by (simp add: read_file_info_404)
  show "sent (trace (snd (commit_changes_to_remote_branch cfg env apply_patch branch
          commit_message diff_text file_path owner repo token w))) =
        sent (trace w) @
          [request_of cfg GET (contents_url cfg owner repo file_path) token None,
           request_of cfg PUT (contents_url cfg owner repo file_path) token
             (Some (VDict [(''message'', VStr commit_message),
                           (''content'', VStr (b64encode modified_text)),
                           (''branch'', VStr branch)]))]"
    using commit_changes_sends [where apply_patch = apply_patch, OF assms(1) r p assms(2)]
    by (simp add: put_data_def)
next
  assume "status_code response = 200" "json response = Some (VDict file_info)"
    "map_of file_info ''content'' = Some content" "b64decode content = Inr raw"
    "bytes_decode raw Replace = Inr original_text" "map_of file_info ''sha'' = Some sha"
  then have r: "read_file_info response = Inr (original_text, sha)"
    by (rule read_file_info_200)
  assume s: "sha \<noteq> VStr []" and p: "apply_patch original_text diff_text = Inr modified_text"
  show "sent (trace (snd (commit_changes_to_remote_branch cfg env apply_patch branch
          commit_message diff_text file_path owner repo token w))) =
        sent (trace w) @
          [request_of cfg GET (contents_url cfg owner repo file_path) token None,
           request_of cfg PUT (contents_url cfg owner repo file_path) token
             (Some (VDict [(''message'', VStr commit_message),
                           (''content'', VStr (b64encode modified_text)),
                           (''branch'', VStr branch), (''sha'', sha)]))]"
    using commit_changes_sends [where apply_patch = apply_patch, OF assms(1) r p assms(2)] s
    by (simp add: put_data_def)
next
  show "b64decode (VStr (b64encode modified_text)) = Inr modified_text"
    by (rule b64decode_b64encode)
qed

theorem write_carries_observed_version_tag_witness:
  "sent (trace (snd (commit_changes_to_remote_branch example_config scripted
      (patch_gives three_lines) ''main'' ''Update README.md'' ''d'' ''README.md'' ''o'' ''r'' ''t''
      (start [Inr (answer 404 VNone), Inr (answer 201 VNone)])))) =
    [request_of example_config GET (contents_url example_config ''o'' ''r'' ''README.md'') ''t''
       None,
     request_of example_config PUT (contents_url example_config ''o'' ''r'' ''README.md'') ''t''
       (Some (VDict [(''message'', VStr ''Update README.md''),
                     (''content'', VStr ''bGluZSAxCmxpbmUgMgpsaW5lIDMK''),
                     (''branch'', VStr ''main'')]))] \<and>
   b64decode (VStr ''bGluZSAxCmxpbmUgMgpsaW5lIDMK'') = Inr three_lines \<and>
   sent (trace (snd (commit_changes_to_remote_branch example_config scripted
      (patch_gives ''hello\<newline>world\<newline>'') ''main'' ''Update a.txt'' ''d'' ''a.txt'' ''o'' ''r'' ''t''
      (start [Inr (answer 200 hello_file), Inr (answer 200 VNone)])))) =
    [request_of example_config GET (contents_url example_config ''o'' ''r'' ''a.txt'') ''t'' None,
     request_of example_config PUT (contents_url example_config ''o'' ''r'' ''a.txt'') ''t''
       (Some (VDict [(''message'', VStr ''Update a.txt''),
                     (''content'', VStr ''aGVsbG8Kd29ybGQK''),
                     (''branch'', VStr ''main''), (''sha'', VStr ''ce013625'')]))]"
proof -
  have absent: "send scripted
      (request_of example_config GET (contents_url example_config ''o'' ''r'' ''README.md'') ''t''
         None)
      (start [Inr (answer 404 VNone), Inr (answer 201 VNone)]) =
    (Inr (answer 404 VNone),
     \<lparr>outside = [Inr (answer 201 VNone)],
      trace = [Sent (request_of example_config GET
                 (contents_url example_config ''o'' ''r'' ''README.md'') ''t'' None)]\<rparr>)"
    by (rule scripted_send_start)
  have present: "send scripted
      (request_of example_config GET (contents_url example_config ''o'' ''r'' ''a.txt'') ''t'' None)
      (start [Inr (answer 200 hello_file), Inr (answer 200 VNone)]) =
    (Inr (answer 200 hello_file),
     \<lparr>outside = [Inr (answer 200 VNone)],
      trace = [Sent (request_of example_config GET
                 (contents_url example_config ''o'' ''r'' ''a.txt'') ''t'' None)]\<rparr>)"
    by (rule scripted_send_start)
  have lines: "three_lines \<noteq> []" by (simp add: three_lines_def)
  have created: "sent (trace (snd (commit_changes_to_remote_branch example_config scripted
      (patch_gives three_lines) ''main'' ''Update README.md'' ''d'' ''README.md'' ''o'' ''r'' ''t''
      (start [Inr (answer 404 VNone), Inr (answer 201 VNone)])))) =
    [request_of example_config GET (contents_url example_config ''o'' ''r'' ''README.md'') ''t''
       None,
     request_of example_config PUT (contents_url example_config ''o'' ''r'' ''README.md'') ''t''
       (Some (VDict [(''message'', VStr ''Update README.md''),
                     (''content'', VStr ''bGluZSAxCmxpbmUgMgpsaW5lIDMK''),
                     (''branch'', VStr ''main'')]))] \<and>
    b64decode (VStr ''bGluZSAxCmxpbmUgMgpsaW5lIDMK'') = Inr three_lines"
    using write_carries_observed_version_tag
      [where apply_patch = "patch_gives three_lines" and diff_text = "''d''"
         and modified_text = three_lines
         and commit_message = "''Update README.md''" and branch = "''main''",
       OF absent lines]
    by (simp add: answer_def patch_gives_def start_def encode_three_lines del: b64encode.simps)
  have updated: "sent (trace (snd (commit_changes_to_remote_branch example_config scripted
      (patch_gives ''hello\<newline>world\<newline>'') ''main'' ''Update a.txt'' ''d'' ''a.txt'' ''o'' ''r'' ''t''
      (start [Inr (answer 200 hello_file), Inr (answer 200 VNone)])))) =
    [request_of example_config GET (contents_url example_config ''o'' ''r'' ''a.txt'') ''t'' None,
     request_of example_config PUT (contents_url example_config ''o'' ''r'' ''a.txt'') ''t''
       (Some (VDict [(''message'', VStr ''Update a.txt''),
                     (''content'', VStr ''aGVsbG8Kd29ybGQK''),
                     (''branch'', VStr ''main''), (''sha'', VStr ''ce013625'')]))]"
    using write_carries_observed_version_tag
      [where apply_patch = "patch_gives ''hello\<newline>world\<newline>''" and diff_text = "''d''"
         and commit_message = "''Update a.txt''" and branch = "''main''"
         and file_info = "[(''content'', VStr ''aGVsbG8K''), (''sha'', VStr ''ce013625'')]"
         and content = "VStr ''aGVsbG8K''" and raw = "''hello\<newline>''"
         and original_text = "''hello\<newline>''" and sha = "VStr ''ce013625''"
         and modified_text = "''hello\<newline>world\<newline>''",
       OF present]
      decode_hello decode_hello_text
    by (simp add: answer_def hello_file_def patch_gives_def start_def encode_hello_world
        del: b64encode.simps)
  show ?thesis using created updated by simp
qed




subsection \<open>The batch\<close>

lemma first_line_name: "first_line d = Inr (name_line d)"
  by (simp add: first_line_def name_line_def)

lemma send_trace: "trace (snd (send env req w)) = trace w @ [Sent req]"
  by (simp add: send_def split: prod.splits)

lemma commit_changes_world:
  "snd (commit_changes_to_remote_branch cfg env apply_patch branch commit_message diff_text
      file_path owner repo token w) =
    (case send env (request_of cfg GET (contents_url cfg owner repo file_path) token None) w of
       (Inl e, w1) \<Rightarrow> w1
     | (Inr response, w1) \<Rightarrow>
         (case read_file_info response of
            Inl e \<Rightarrow> w1
          | Inr (original_text, sha) \<Rightarrow>
              (case apply_patch original_text diff_text of
                 Inl e \<Rightarrow> w1
               | Inr modified_text \<Rightarrow>
                   if modified_text = [] then w1
                   else snd (send env
                     (request_of cfg PUT (contents_url cfg owner repo file_path) token
                        (Some (put_data commit_message (b64encode modified_text) branch sha)))
                     w1))))"
  by (simp add: commit_changes_returns commit_changes_inner_def content_of_text
      split: sum.splits prod.splits)

lemma commit_changes_starts_with_get:
  "\<exists>es. trace (snd (commit_changes_to_remote_branch cfg env apply_patch branch commit_message
      diff_text file_path owner repo token w)) =
    trace w @ Sent (request_of cfg GET (contents_url cfg owner repo file_path) token None) # es"
proof -
  obtain r w1 where g: "send env (request_of cfg GET (contents_url cfg owner repo file_path) token None) w = (r, w1)"
    by (cases "send env (request_of cfg GET (contents_url cfg owner repo file_path) token None) w")
  have t1: "trace w1 = trace w @ [Sent (request_of cfg GET (contents_url cfg owner repo file_path) token None)]"
    by (rule send_world [OF g])
  show ?thesis
    unfolding commit_changes_world g
    by (simp add: t1 send_trace split: sum.splits prod.splits)
qed

lemma commit_multiple_loop_runs_all:
  assumes "\<And>d. d \<in> set diffs \<Longrightarrow> extract_file_name d = Inr (file_name d)"
  shows "commit_multiple_loop cfg env apply_patch extract_file_name diffs new_branch owner repo
      token w =
    (Inr (), foldl (\<lambda>w d. snd (commit_changes_to_remote_branch cfg env apply_patch new_branch
       (''Update '' @ file_name d) d (file_name d) owner repo token w)) w diffs)"
  using assms
proof (induction diffs arbitrary: w)
  case Nil
  show ?case by simp
next
  case (Cons d ds)
  have "extract_file_name d = Inr (file_name d)" using Cons.prems by simp
  moreover have "\<And>d'. d' \<in> set ds \<Longrightarrow> extract_file_name d' = Inr (file_name d')"
    using Cons.prems by simp
  ultimately show ?case
    using Cons.IH by (simp add: commit_changes_returns)
qed

lemma foldl_commits_keep_trace:
  "prefix (trace w) (trace (foldl (\<lambda>w d. snd (commit_changes_to_remote_branch cfg env apply_patch
      new_branch (''Update '' @ file_name d) d (file_name d) owner repo token w)) w diffs))"
proof (induction diffs arbitrary: w)
  case Nil
  show ?case by simp
next
  case (Cons d ds)
  obtain es where "trace (snd (commit_changes_to_remote_branch cfg env apply_patch new_branch
      (''Update '' @ file_name d) d (file_name d) owner repo token w)) =
    trace w @ Sent (request_of cfg GET (contents_url cfg owner repo (file_name d)) token None) # es"
    using commit_changes_starts_with_get by blast
  then have "prefix (trace w) (trace (snd (commit_changes_to_remote_branch cfg env apply_patch
      new_branch (''Update '' @ file_name d) d (file_name d) owner repo token w)))"
    by simp
  then show ?case using Cons.IH prefix_order.trans by fastforce
qed

lemma foldl_commits_read_each:
  assumes "d \<in> set diffs"
  shows "Sent (request_of cfg GET (contents_url cfg owner repo (file_name d)) token None)
    \<in> set (trace (foldl (\<lambda>w d. snd (commit_changes_to_remote_branch cfg env apply_patch
      new_branch (''Update '' @ file_name d) d (file_name d) owner repo token w)) w diffs))"
  using assms
proof (induction diffs arbitrary: w)
  case Nil
  then show ?case by simp
next
  case (Cons x xs)
  show ?case
  proof (cases "d = x")
    case True
    obtain es where "trace (snd (commit_changes_to_remote_branch cfg env apply_patch new_branch
        (''Update '' @ file_name d) d (file_name d) owner repo token w)) =
      trace w @ Sent (request_of cfg GET (contents_url cfg owner repo (file_name d)) token None) # es"
      using commit_changes_starts_with_get by blast
    then have "Sent (request_of cfg GET (contents_url cfg owner repo (file_name d)) token None)
      \<in> set (trace (snd (commit_changes_to_remote_branch cfg env apply_patch new_branch
        (''Update '' @ file_name d) d (file_name d) owner repo token w)))"
      by simp
    then show ?thesis
      using True foldl_commits_keep_trace set_mono_prefix by (fastforce simp: subset_iff)
  next
    case False
    then have "d \<in> set xs" using Cons.prems by simp
    then show ?thesis using Cons.IH by simp
  qed
qed

text \<open>
  C2, as the code has it. The diffs are taken in the given order, one file each, and a
  failing read or write of one file does not stop the sequence:
  \<^verbatim>\<open>commit_changes_to_remote_branch\<close> is decorated with \<^verbatim>\<open>raise_on_error=False\<close>, so the
  loop never sees the failure, and the world each commit leaves, whatever its outcome, is
  the world the next one starts from. Every diff is read, and nothing is rolled back.
\<close>

theorem batch_attempts_every_diff:
  assumes "\<And>d. d \<in> set diffs \<Longrightarrow> extract_file_name d = Inr (file_name d)"
  shows "commit_multiple_changes_to_remote_branch cfg env apply_patch extract_file_name diffs
      new_branch owner repo token w =
    (Inr (), foldl (\<lambda>w d. snd (commit_changes_to_remote_branch cfg env apply_patch new_branch
       (''Update '' @ file_name d) d (file_name d) owner repo token w)) w diffs) \<and>
    (\<forall>d \<in> set diffs.
       Sent (request_of cfg GET (contents_url cfg owner repo (file_name d)) token None)
         \<in> set (trace (snd (commit_multiple_changes_to_remote_branch cfg env apply_patch
              extract_file_name diffs new_branch owner repo token w))))"
proof -
  have loop: "commit_multiple_loop cfg env apply_patch extract_file_name diffs new_branch owner
      repo token w =
    (Inr (), foldl (\<lambda>w d. snd (commit_changes_to_remote_branch cfg env apply_patch new_branch
       (''Update '' @ file_name d) d (file_name d) owner repo token w)) w diffs)"
    by (rule commit_multiple_loop_runs_all) (rule assms)
  then have all: "commit_multiple_changes_to_remote_branch cfg env apply_patch extract_file_name
      diffs new_branch owner repo token w =
    (Inr (), foldl (\<lambda>w d. snd (commit_changes_to_remote_branch cfg env apply_patch new_branch
       (''Update '' @ file_name d) d (file_name d) owner repo token w)) w diffs)"
    by (simp add: commit_multiple_changes_to_remote_branch_def decorated_False)
  show ?thesis
    unfolding all snd_conv by (intro conjI ballI refl foldl_commits_read_each)
qed

theorem batch_attempts_every_diff_witness:
  "fst (commit_multiple_changes_to_remote_branch example_config scripted
      (patch_gives three_lines) first_line two_diffs ''main'' ''o'' ''r'' ''t''
      (start conflict_script)) = Inr () \<and>
   Sent (request_of example_config GET (contents_url example_config ''o'' ''r'' ''b.txt'') ''t''
      None)
     \<in> set (trace (snd (commit_multiple_changes_to_remote_branch example_config scripted
          (patch_gives three_lines) first_line two_diffs ''main'' ''o'' ''r'' ''t''
          (start conflict_script))))"
proof -
  have names: "\<And>d. d \<in> set two_diffs \<Longrightarrow> first_line d = Inr (name_line d)"
    by (rule first_line_name)
  have b: "name_line ''b.txt\<newline>+two'' = ''b.txt''" by (simp add: name_line_def)
  note run = batch_attempts_every_diff
      [where extract_file_name = first_line and file_name = name_line
         and apply_patch = "patch_gives three_lines" and cfg = example_config
         and env = scripted and new_branch = "''main''" and owner = "''o''" and repo = "''r''"
         and token = "''t''" and w = "start conflict_script" and diffs = two_diffs,
       OF names]
  have returned: "fst (commit_multiple_changes_to_remote_branch example_config scripted
      (patch_gives three_lines) first_line two_diffs ''main'' ''o'' ''r'' ''t''
      (start conflict_script)) = Inr ()"
    by (simp only: run [THEN conjunct1] fst_conv)
  have member: "''b.txt\<newline>+two'' \<in> set two_diffs" by (simp add: two_diffs_def)
  have "Sent (request_of example_config GET
      (contents_url example_config ''o'' ''r'' (name_line ''b.txt\<newline>+two'')) ''t'' None)
     \<in> set (trace (snd (commit_multiple_changes_to_remote_branch example_config scripted
          (patch_gives three_lines) first_line two_diffs ''main'' ''o'' ''r'' ''t''
          (start conflict_script))))"
    using run [THEN conjunct2] member by blast
  then show ?thesis using returned by (simp only: b)
qed

text \<open>
  C2, as the claim states it, fails: the write of the first file is refused with 409, and
  the second file is read and written all the same.
\<close>

theorem batch_continues_after_failure_counterexample:
  "fst (commit_changes_inner example_config scripted (patch_gives three_lines) ''main''
      ''Update a.txt'' ''a.txt\<newline>+one'' ''a.txt'' ''o'' ''r'' ''t'' (start conflict_script)) =
     Inl (HTTPError (Some (answer 409 VNone))) \<and>
   sent (trace (snd (commit_multiple_changes_to_remote_branch example_config scripted
      (patch_gives three_lines) first_line two_diffs ''main'' ''o'' ''r'' ''t''
      (start conflict_script)))) =
   [request_of example_config GET (contents_url example_config ''o'' ''r'' ''a.txt'') ''t'' None,
    request_of example_config PUT (contents_url example_config ''o'' ''r'' ''a.txt'') ''t''
      (Some (VDict [(''message'', VStr ''Update a.txt''),
                    (''content'', VStr ''bGluZSAxCmxpbmUgMgpsaW5lIDMK''),
                    (''branch'', VStr ''main'')])),
    request_of example_config GET (contents_url example_config ''o'' ''r'' ''b.txt'') ''t'' None,
    request_of example_config PUT (contents_url example_config ''o'' ''r'' ''b.txt'') ''t''
      (Some (VDict [(''message'', VStr ''Update b.txt''),
                    (''content'', VStr ''bGluZSAxCmxpbmUgMgpsaW5lIDMK''),
                    (''branch'', VStr ''main'')]))]"
  by code_simp

section \<open>The failure reporter\<close>

lemma update_comment_world:
  "\<exists>v. fst (update_comment cfg env comment_url body token w) = Inr v"
  "trace (snd (update_comment cfg env comment_url body token w)) =
     trace w @ [Sent (request_of cfg PATCH comment_url token
        (Some (VDict [(''body'', VStr body)])))]"
  by (auto simp: update_comment_def decorated_False update_comment_inner_def send_trace
      split: prod.splits sum.splits dest: send_world)

lemma reporter_result:
  "fst (update_comment_for_raised_errors cfg env error comment_url token which_function w) =
     Inl (RuntimeError ''Error occurred'')"
  "trace (snd (update_comment_for_raised_errors cfg env error comment_url token which_function
     w)) =
   trace w @ fst (reported cfg error which_function) @
     [Sent (request_of cfg PATCH comment_url token
        (Some (VDict [(''body'', VStr (snd (reported cfg error which_function)))])))]"
proof -
  obtain logs body where r: "reported cfg error which_function = (logs, body)"
    by (cases "reported cfg error which_function")
  obtain v w1 where u: "update_comment cfg env comment_url body token
      \<lparr>outside = outside w, trace = trace w @ logs\<rparr> = (Inr v, w1)"
    using update_comment_world(1) [of cfg env comment_url body token
        "\<lparr>outside = outside w, trace = trace w @ logs\<rparr>"]
    by (metis prod.collapse)
  have t: "trace w1 = (trace w @ logs) @ [Sent (request_of cfg PATCH comment_url token
        (Some (VDict [(''body'', VStr body)])))]"
    using update_comment_world(2) [of cfg env comment_url body token
        "\<lparr>outside = outside w, trace = trace w @ logs\<rparr>"] u by simp
  show "fst (update_comment_for_raised_errors cfg env error comment_url token which_function w) =
     Inl (RuntimeError ''Error occurred'')"
    by (simp add: update_comment_for_raised_errors_def r u)
  show "trace (snd (update_comment_for_raised_errors cfg env error comment_url token which_function
     w)) =
   trace w @ fst (reported cfg error which_function) @
     [Sent (request_of cfg PATCH comment_url token
        (Some (VDict [(''body'', VStr (snd (reported cfg error which_function)))])))]"
    by (simp add: update_comment_for_raised_errors_def r u t)
qed

lemma classification_failure_falls_back:
  assumes "snd (classify cfg error which_function) = Inl e"
  shows "snd (reported cfg error which_function) = UPDATE_COMMENT_FOR_RAISED_ERRORS_BODY cfg"
    and "Logged ERROR ''%s Error: %s'' [AStr which_function, AExn e]
      \<in> set (fst (reported cfg error which_function))"
  using assms by (auto simp: reported_def split: prod.splits sum.splits)

text \<open>
  C5. Whatever the error value is, \<^verbatim>\<open>update_comment_for_raised_errors\<close> raises
  \<^verbatim>\<open>RuntimeError("Error occurred")\<close> and never returns; before that it has sent the update
  of the comment, after the records it logged. When the classification of the error raises,
  the exception is logged, the body is the generic one, and the update is sent all the same.
\<close>

theorem reporter_always_raises_after_update:
  "fst (update_comment_for_raised_errors cfg env error comment_url token which_function w) =
     Inl (RuntimeError ''Error occurred'') \<and>
   trace (snd (update_comment_for_raised_errors cfg env error comment_url token which_function
     w)) =
     trace w @ fst (reported cfg error which_function) @
       [Sent (request_of cfg PATCH comment_url token
          (Some (VDict [(''body'', VStr (snd (reported cfg error which_function)))])))] \<and>
   (\<forall>e. snd (classify cfg error which_function) = Inl e \<longrightarrow>
      snd (reported cfg error which_function) = UPDATE_COMMENT_FOR_RAISED_ERRORS_BODY cfg \<and>
      Logged ERROR ''%s Error: %s'' [AStr which_function, AExn e]
        \<in> set (fst (reported cfg error which_function)))"
  by (auto simp: reporter_result classification_failure_falls_back)

lemma classify_malformed:
  "classify cfg (error_of_exn (HTTPError None)) which_function =
     ([], Inl (AttributeError ''status_code''))"
  by (simp add: classify_def)

theorem reporter_always_raises_after_update_witness:
  "snd (classify example_config (error_of_exn (HTTPError None)) ''create_remote_branch'') =
     Inl (AttributeError ''status_code'') \<and>
   fst (update_comment_for_raised_errors example_config scripted (error_of_exn (HTTPError None))
     ''https://api.github.com/repos/o/r/issues/comments/1'' ''t'' ''create_remote_branch''
     (start [Inr (answer 200 (VDict []))])) = Inl (RuntimeError ''Error occurred'') \<and>
   trace (snd (update_comment_for_raised_errors example_config scripted
     (error_of_exn (HTTPError None))
     ''https://api.github.com/repos/o/r/issues/comments/1'' ''t'' ''create_remote_branch''
     (start [Inr (answer 200 (VDict []))]))) =
   [Logged ERROR ''%s Error: %s''
      [AStr ''create_remote_branch'', AExn (AttributeError ''status_code'')],
    Sent (request_of example_config PATCH
      ''https://api.github.com/repos/o/r/issues/comments/1'' ''t''
      (Some (VDict [(''body'', VStr ''Sorry, we have an error. Please try again.'')])))]"
proof -
  have failed: "snd (classify example_config (error_of_exn (HTTPError None))
      ''create_remote_branch'') = Inl (AttributeError ''status_code'')"
    by (simp only: classify_malformed snd_conv)
  have fallback: "reported example_config (error_of_exn (HTTPError None))
      ''create_remote_branch'' =
    ([Logged ERROR ''%s Error: %s''
        [AStr ''create_remote_branch'', AExn (AttributeError ''status_code'')]],
     ''Sorry, we have an error. Please try again.'')"
    by (simp add: reported_def classify_def example_config_def)
  have fresh: "trace (start [Inr (answer 200 (VDict []))]) = []"
    by (simp add: start_def)
  show ?thesis
    using reporter_always_raises_after_update [of example_config scripted
        "error_of_exn (HTTPError None)" "''https://api.github.com/repos/o/r/issues/comments/1''"
        "''t''" "''create_remote_branch''" "start [Inr (answer 200 (VDict []))]"]
      failed
    unfolding fallback fresh by simp
qed

lemma no_changes_condition_of_exn:
  "no_changes_condition (error_of_exn (HTTPError (Some r))) =
     (if status_code r = 422 then Inl (TypeError ''object is not subscriptable'') else Inr False)"
  by (simp add: no_changes_condition_def)

lemma reported_of_exn:
  "snd (reported cfg (error_of_exn e) which_function) = UPDATE_COMMENT_FOR_RAISED_ERRORS_BODY cfg"
proof (cases e)
  case (HTTPError ro)
  then show ?thesis
    by (cases ro) (simp_all add: reported_def classify_def no_changes_condition_def Let_def)
qed (simp_all add: reported_def classify_def)

text \<open>
  C4. The claim does not hold of the code. For every exception a caller can pass, the
  reporter chooses the generic body: on status 422 the condition evaluates
  \<^verbatim>\<open>error["message"]\<close>, an exception object cannot be subscripted, and the \<^verbatim>\<open>TypeError\<close> is
  caught by the handler that keeps the generic body. At the error of the claim (422,
  "Validation Failed", "No commits between main and feature-1") the run logs that
  \<^verbatim>\<open>TypeError\<close> and sends the generic body.
\<close>

theorem no_commits_error_gets_generic_body:
  "snd (reported cfg (error_of_exn e) which_function) = UPDATE_COMMENT_FOR_RAISED_ERRORS_BODY cfg \<and>
   trace (snd (update_comment_for_raised_errors example_config scripted
     (error_of_exn (HTTPError (Some no_commits_response)))
     ''https://api.github.com/repos/o/r/issues/comments/1'' ''t'' ''create_pull_request''
     (start [Inr (answer 200 (VDict []))]))) =
   [Logged ERROR ''%s HTTP Error: %s - %s''
      [AStr ''create_pull_request'', AVal (VInt 422), AVal (VStr ''Validation Failed'')],
    Logged ERROR ''%s Error: %s''
      [AStr ''create_pull_request'', AExn (TypeError ''object is not subscriptable'')],
    Sent (request_of example_config PATCH
      ''https://api.github.com/repos/o/r/issues/comments/1'' ''t''
      (Some (VDict [(''body'', VStr ''Sorry, we have an error. Please try again.'')])))]"
proof -
  have chosen: "reported example_config (error_of_exn (HTTPError (Some no_commits_response)))
      ''create_pull_request'' =
    ([Logged ERROR ''%s HTTP Error: %s - %s''
        [AStr ''create_pull_request'', AVal (VInt 422), AVal (VStr ''Validation Failed'')],
      Logged ERROR ''%s Error: %s''
        [AStr ''create_pull_request'', AExn (TypeError ''object is not subscriptable'')]],
     ''Sorry, we have an error. Please try again.'')"
    by (simp add: reported_def classify_def no_changes_condition_def Let_def
        no_commits_response_def example_config_def)
  have fresh: "trace (start [Inr (answer 200 (VDict []))]) = []"
    by (simp add: start_def)
  show ?thesis
    unfolding reporter_result(2) chosen fresh by (simp add: reported_of_exn)
qed

text \<open>
  The other body is chosen for an object that answers the expressions of the condition
  as the code expects.
\<close>

lemma no_changes_body_needs_a_subscriptable_error:
  "reported cfg duck_typed_error which_function =
    ([Logged ERROR ''%s HTTP Error: %s - %s''
        [AStr which_function, AVal (VInt 422), AVal (VStr ''Validation Failed'')]],
     UPDATE_COMMENT_FOR_RAISED_ERRORS_NO_CHANGES_MADE cfg)"
  by (simp add: reported_def classify_def no_changes_condition_def duck_typed_error_def
      errors_mention_no_commits_def message_mentions_no_commits_def)

section \<open>The ref resolver\<close>




lemma bootstraps_bootstrap_commands:
  "bootstraps (map Sys (bootstrap_commands cfg repo_path remote_url)) = 1"
  by (simp add: bootstraps_def bootstrap_commands_def)

lemma ref_lookup_scripted:
  "ref_lookup cfg scripted owner repo branch token \<lparr>outside = r # rs, trace = tr\<rparr> =
    (case r of
       Inl e \<Rightarrow> Inl e
     | Inr response \<Rightarrow>
         (case raise_for_status response of
            Inl e \<Rightarrow> Inl e
          | Inr _ \<Rightarrow>
              (case response_json response of
                 Inl e \<Rightarrow> Inl e
               | Inr j \<Rightarrow>
                   (case getitem_str j ''object'' of
                      Inl e \<Rightarrow> Inl e
                    | Inr ob \<Rightarrow> getitem_str ob ''sha''))),
     \<lparr>outside = rs,
      trace = tr @ [Sent (request_of cfg GET (ref_url cfg owner repo branch) token None)]\<rparr>)"
  by (simp add: ref_lookup_def scripted_send split: sum.splits)







lemma except_Exception_raises:
  "except_Exception cfg env e comment_url token w =
   (Inl (RuntimeError ''Error occurred''),
    snd (update_comment_for_raised_errors cfg env (error_of_exn e) comment_url token
      ''get_latest_remote_commit_sha'' w))"
proof -
  obtain w2 where "update_comment_for_raised_errors cfg env (error_of_exn e) comment_url token
       ''get_latest_remote_commit_sha'' w = (Inl (RuntimeError ''Error occurred''), w2)"
    using reporter_result(1) [of cfg env "error_of_exn e" comment_url token
        "''get_latest_remote_commit_sha''" w]
    by (metis prod.collapse)
  then show ?thesis by (simp add: except_Exception_def)
qed





text \<open>A bootstrap that fails raises inside the handler of \<^verbatim>\<open>HTTPError\<close>: nothing reports it.\<close>

lemma resolve_bootstrap_fails:
  assumes "ref_lookup cfg env owner repo branch token w = (Inl (HTTPError ro), w1)"
    and "repository_is_empty ro = Inr True"
    and "initialize_repo cfg env (''/tmp/repo/'' @ owner @ ''-'' @ repo) clone_url
       (logging INFO ''Repository is empty. So, creating an initial empty commit.'' [] w1) =
     (Inl e', w2)"
  shows "get_latest_remote_commit_sha (Suc frames) cfg env owner repo branch comment_url unique_issue_id clone_url token w = (Inl e', w2)"
  by (simp add: assms del: append.simps)





lemma resolve_http_error:
  assumes "ref_lookup cfg env owner repo branch token w = (Inl (HTTPError ro), w1)"
    and "repository_is_empty ro = Inr False"
  shows "get_latest_remote_commit_sha (Suc frames) cfg env owner repo branch comment_url unique_issue_id clone_url token w = (Inl (HTTPError ro), w1)"
  by (simp add: assms)

lemma resolve_other_error:
  assumes "ref_lookup cfg env owner repo branch token w = (Inl e, w1)"
    and "caught_HTTPError e = None"
  shows "get_latest_remote_commit_sha (Suc frames) cfg env owner repo branch comment_url unique_issue_id clone_url token w =
   (Inl (RuntimeError ''Error occurred''),
     snd (update_comment_for_raised_errors cfg env (error_of_exn e) comment_url token
       ''get_latest_remote_commit_sha'' w1))"
  by (simp add: assms except_Exception_raises)

text \<open>
  C6. The claim does not hold of the code. An HTTP error of the lookup other than the
  empty repository (here 404) is raised again by the bare \<^verbatim>\<open>raise\<close> of line 442, inside
  the handler of \<^verbatim>\<open>HTTPError\<close>: the function raises, as the claim says, but the failure
  reporter is never called and the comment is not updated (the answer scripted for the
  update is still there). Only an error that is not an \<^verbatim>\<open>HTTPError\<close> (here a timeout)
  reaches the handler that reports: it is logged, the comment is updated, and
  \<^verbatim>\<open>RuntimeError\<close> is raised.
\<close>

theorem http_error_is_raised_unreported:
  "get_latest_remote_commit_sha (Suc frames) example_config scripted ''o'' ''r'' ''main''
     ''https://api.github.com/repos/o/r/issues/comments/1'' ''i'' ''https://github.com/o/r.git''
     ''t'' (start [Inr not_found_response, Inr (answer 200 (VDict []))]) =
   (Inl (HTTPError (Some not_found_response)),
     \<lparr>outside = [Inr (answer 200 (VDict []))],
      trace = [Sent (request_of example_config GET (ref_url example_config ''o'' ''r'' ''main'')
                 ''t'' None)]\<rparr>) \<and>
   get_latest_remote_commit_sha (Suc frames) example_config scripted ''o'' ''r'' ''main''
     ''https://api.github.com/repos/o/r/issues/comments/1'' ''i'' ''https://github.com/o/r.git''
     ''t'' (start [Inl (RequestException ''timed out''), Inr (answer 200 (VDict []))]) =
   (Inl (RuntimeError ''Error occurred''),
     \<lparr>outside = [],
      trace = [Sent (request_of example_config GET (ref_url example_config ''o'' ''r'' ''main'')
                 ''t'' None),
               Logged ERROR ''%s Error: %s''
                 [AStr ''get_latest_remote_commit_sha'',
                  AObj (error_of_exn (RequestException ''timed out''))],
               Sent (request_of example_config PATCH
                 ''https://api.github.com/repos/o/r/issues/comments/1'' ''t''
                 (Some (VDict [(''body'',
                    VStr ''Sorry, we have an error. Please try again.'')])))]\<rparr>)"
proof -
  have looked: "ref_lookup example_config scripted ''o'' ''r'' ''main'' ''t''
      (start [Inr not_found_response, Inr (answer 200 (VDict []))]) =
    (Inl (HTTPError (Some not_found_response)),
     \<lparr>outside = [Inr (answer 200 (VDict []))],
      trace = [Sent (request_of example_config GET (ref_url example_config ''o'' ''r'' ''main'')
                 ''t'' None)]\<rparr>)"
    by (simp add: start_def ref_lookup_scripted raise_for_status_def not_found_response_def
        answer_def)
  have other: "repository_is_empty (Some not_found_response) = Inr False"
    by (simp add: repository_is_empty_def not_found_response_def answer_def)
  have failed: "ref_lookup example_config scripted ''o'' ''r'' ''main'' ''t''
      (start [Inl (RequestException ''timed out''), Inr (answer 200 (VDict []))]) =
    (Inl (RequestException ''timed out''),
     \<lparr>outside = [Inr (answer 200 (VDict []))],
      trace = [Sent (request_of example_config GET (ref_url example_config ''o'' ''r'' ''main'')
                 ''t'' None)]\<rparr>)"
    by (simp add: start_def ref_lookup_scripted)
  have reported: "snd (update_comment_for_raised_errors example_config scripted
      (error_of_exn (RequestException ''timed out''))
      ''https://api.github.com/repos/o/r/issues/comments/1'' ''t''
      ''get_latest_remote_commit_sha''
      \<lparr>outside = [Inr (answer 200 (VDict []))],
       trace = [Sent (request_of example_config GET (ref_url example_config ''o'' ''r'' ''main'')
                 ''t'' None)]\<rparr>) =
     \<lparr>outside = [],
      trace = [Sent (request_of example_config GET (ref_url example_config ''o'' ''r'' ''main'')
                 ''t'' None),
               Logged ERROR ''%s Error: %s''
                 [AStr ''get_latest_remote_commit_sha'',
                  AObj (error_of_exn (RequestException ''timed out''))],
               Sent (request_of example_config PATCH
                 ''https://api.github.com/repos/o/r/issues/comments/1'' ''t''
                 (Some (VDict [(''body'',
                    VStr ''Sorry, we have an error. Please try again.'')])))]\<rparr>"
    by (simp add: update_comment_for_raised_errors_def reported_def classify_def
        update_comment_def decorated_False update_comment_inner_def scripted_send
        raise_for_status_def answer_def response_json_def example_config_def)
  show ?thesis
    using resolve_http_error [OF looked other] resolve_other_error [OF failed] reported
    by simp
qed

section \<open>The signature verifier\<close>

lemma hex_digit_ascii: "k < 16 \<Longrightarrow> (of_char (''0123456789abcdef'' ! k) :: nat) < 128"
proof -
  assume "k < 16"
  then have "''0123456789abcdef'' ! k \<in> set ''0123456789abcdef''"
    by (intro nth_mem) simp
  then show ?thesis by auto
qed

lemma nibble_hi: "(x::nat) < 256 \<Longrightarrow> x div 16 < 16"
  by simp

lemma nibbles: "(of_char c :: nat) div 16 < 16" "(of_char c :: nat) mod 16 < 16"
  by (rule nibble_hi [OF byte_bound]) simp

lemma is_ascii_append: "is_ascii (xs @ ys) = (is_ascii xs \<and> is_ascii ys)"
  by (simp add: is_ascii_def)

lemma is_ascii_hexdigest: "is_ascii (hexdigest digest)"
  by (induction digest) (simp_all add: hexdigest_def is_ascii_def hex_digit_ascii nibbles)

lemma is_ascii_expected: "is_ascii (''sha256='' @ hexdigest digest)"
  unfolding is_ascii_append by (simp add: is_ascii_hexdigest) (simp add: is_ascii_def)

text \<open>
  The outcomes of the verifier. Without the header it raises the signature-missing error;
  with the header equal to \<^verbatim>\<open>sha256=\<close> followed by the lowercase hexadecimal HMAC it
  succeeds; for every other ASCII value of the header it raises the signature-invalid
  error; for a header with a character outside ASCII, \<^verbatim>\<open>hmac.compare_digest\<close> raises
  \<^verbatim>\<open>TypeError\<close> before any comparison is made, and the decorator raises it again.
\<close>

lemma verifier_outcomes:
  "verify_webhook_signature hmac_sha256 None body secret =
     Inl (ValueError ''Missing webhook signature'') \<and>
   verify_webhook_signature hmac_sha256
     (Some (''sha256='' @ hexdigest (hmac_sha256 (str_encode secret) body))) body secret = Inr () \<and>
   (is_ascii sig \<longrightarrow> sig \<noteq> ''sha256='' @ hexdigest (hmac_sha256 (str_encode secret) body) \<longrightarrow>
      verify_webhook_signature hmac_sha256 (Some sig) body secret =
        Inl (ValueError ''Invalid webhook signature'')) \<and>
   (\<not> is_ascii sig \<longrightarrow>
      verify_webhook_signature hmac_sha256 (Some sig) body secret =
        Inl (TypeError ''comparing strings with non-ASCII characters is not supported''))"
  using is_ascii_expected [of "hmac_sha256 (str_encode secret) body"]
  by (simp add: verify_webhook_signature_def verify_webhook_signature_inner_def
      handle_exceptions_def compare_digest_def Let_def del: append.simps)

text \<open>
  C7. The claim does not hold of the code for a header that holds a character outside
  ASCII. Lines 577 and 578 raise the signature-invalid error for a header that differs
  from the expected string, and an ASCII header that differs (here \<^verbatim>\<open>sha256=00\<close>) gets it.
  The header \<^verbatim>\<open>e\<close> with an acute accent differs from the expected string as well, but
  \<^verbatim>\<open>hmac.compare_digest\<close> raises \<^verbatim>\<open>TypeError\<close> on it, and that is what the function
  raises instead of the signature-invalid error.
\<close>

theorem non_ascii_signature_raises_type_error:
  "[CHR 0xC3, CHR 0xA9] \<noteq> ''sha256='' @ hexdigest (stand_in_hmac (str_encode ''s3cret'') ''{}'') \<and>
   verify_webhook_signature stand_in_hmac (Some [CHR 0xC3, CHR 0xA9]) ''{}'' ''s3cret'' =
     Inl (TypeError ''comparing strings with non-ASCII characters is not supported'') \<and>
   verify_webhook_signature stand_in_hmac (Some [CHR 0xC3, CHR 0xA9]) ''{}'' ''s3cret'' \<noteq>
     Inl (ValueError ''Invalid webhook signature'') \<and>
   ''sha256=00'' \<noteq> ''sha256='' @ hexdigest (stand_in_hmac (str_encode ''s3cret'') ''{}'') \<and>
   verify_webhook_signature stand_in_hmac (Some ''sha256=00'') ''{}'' ''s3cret'' =
     Inl (ValueError ''Invalid webhook signature'')"
  by (simp add: verify_webhook_signature_def verify_webhook_signature_inner_def
      handle_exceptions_def compare_digest_def Let_def is_ascii_def hexdigest_def
      stand_in_hmac_def str_encode_def)

section \<open>Decoding the content of a file\<close>

lemma decode_undecodable: "b64decode (VStr ''/w=='') = Inr [CHR 0xFF]"
  by code_simp

lemma strict_undecodable: "bytes_decode [CHR 0xFF] Strict = Inl UnicodeDecodeError"
  by code_simp

lemma replace_undecodable: "bytes_decode [CHR 0xFF] Replace = Inr replacement_character"
  by code_simp

text \<open>
  C9. The claim does not hold of the code. \<^verbatim>\<open>get_remote_file_content\<close> decodes with
  \<^verbatim>\<open>.decode(encoding=UTF8)\<close>, which is strict: for a file that holds the byte \<^verbatim>\<open>0xFF\<close>
  the decoding raises \<^verbatim>\<open>UnicodeDecodeError\<close>, and the decorator turns it into the default
  value, the empty string. The read step of \<^verbatim>\<open>commit_changes_to_remote_branch\<close> passes
  \<^verbatim>\<open>errors="replace"\<close> and yields the replacement character for the same content; that
  decoding never raises (\<open>bytes_decode_Replace\<close>).
\<close>

theorem file_reader_decodes_strictly:
  "get_remote_file_content_inner example_config scripted describe_image ''notes.txt'' ''o''
     ''main'' ''r'' ''t'' (start [Inr (answer 200 undecodable_file)]) =
   (Inl UnicodeDecodeError,
    \<lparr>outside = [],
     trace = [Sent (request_of example_config GET
        (contents_url example_config ''o'' ''r'' ''notes.txt'' @ ''?ref='' @ ''main'') ''t''
        None)]\<rparr>) \<and>
   fst (get_remote_file_content example_config scripted describe_image ''notes.txt'' ''o''
     ''main'' ''r'' ''t'' (start [Inr (answer 200 undecodable_file)])) = Inr [] \<and>
   read_file_info (answer 200 undecodable_file) = Inr (replacement_character, VStr ''9d1d35e0'')"
proof -
  have plain: "\<not> is_image_path ''notes.txt''" by (simp add: is_image_path_def suffix_def)
  have inner: "get_remote_file_content_inner example_config scripted describe_image ''notes.txt''
      ''o'' ''main'' ''r'' ''t'' (start [Inr (answer 200 undecodable_file)]) =
   (Inl UnicodeDecodeError,
    \<lparr>outside = [],
     trace = [Sent (request_of example_config GET
        (contents_url example_config ''o'' ''r'' ''notes.txt'' @ ''?ref='' @ ''main'') ''t''
        None)]\<rparr>)"
    using plain
    by (simp add: get_remote_file_content_inner_def scripted_send_start raise_for_status_def
        answer_def response_json_def undecodable_file_def decode_undecodable
        strict_undecodable del: b64decode.simps)
  have read: "read_file_info (answer 200 undecodable_file) =
      Inr (replacement_character, VStr ''9d1d35e0'')"
    by (simp add: read_file_info_def answer_def response_json_def undecodable_file_def
        decode_undecodable replace_undecodable del: b64decode.simps)
  show ?thesis
    using inner read by (simp add: get_remote_file_content_def decorated_False)
qed

end
